theory Spec2Isabelle
  imports Complex_Main "HOL-Library.AList" "HOL-Library.Sublist"
begin

section \<open>Python values shared by the scripts\<close>

text \<open>
  Python strings are modelled as \<^typ>\<open>string\<close>: lists of characters with code points
  below 256. A Python dict is an association list in insertion order, with
  \<^const>\<open>AList.update\<close> for \<^verbatim>\<open>d[k] = v\<close> (the value is replaced in place when the key
  exists, the pair is appended otherwise) and \<^const>\<open>map_of\<close> for the lookup.
\<close>

datatype py_error =
    ZeroDivisionError
  | KeyError string
  | TypeError string
  | ValueError string
  | JSONDecodeError string
  | Exception string
  | Unmodelled string

type_synonym ('k, 'v) dict = "('k \<times> 'v) list"

definition dict_keys :: "('k, 'v) dict \<Rightarrow> 'k list" where
  "dict_keys d = map fst d"

definition dict_values :: "('k, 'v) dict \<Rightarrow> 'v list" where
  "dict_values d = map snd d"

definition dict_contains :: "('k, 'v) dict \<Rightarrow> 'k \<Rightarrow> bool" where
  "dict_contains d k = (map_of d k \<noteq> None)"


subsection \<open>Strings\<close>

text \<open>
  \<^verbatim>\<open>str.isspace\<close> on the code points below 256; \<^verbatim>\<open>strip()\<close>, \<^verbatim>\<open>split()\<close> and the
  pattern \<^verbatim>\<open>\s\<close> all use this set.
\<close>

definition is_space :: "char \<Rightarrow> bool" where
  "is_space c \<longleftrightarrow> c \<in> set [CHR 0x09, CHR 0x0A, CHR 0x0B, CHR 0x0C, CHR 0x0D,
      CHR 0x1C, CHR 0x1D, CHR 0x1E, CHR 0x1F, CHR 0x20, CHR 0x85, CHR 0xA0]"

definition py_strip :: "string \<Rightarrow> string" where
  "py_strip s = rev (dropWhile is_space (rev (dropWhile is_space s)))"

text \<open>\<^verbatim>\<open>str.lower\<close>: the letters A-Z and the upper-case letters of Latin-1.\<close>

definition upper_letters :: string where
  "upper_letters = ''ABCDEFGHIJKLMNOPQRSTUVWXYZ'' @
     [CHR 0xC0, CHR 0xC1, CHR 0xC2, CHR 0xC3, CHR 0xC4, CHR 0xC5, CHR 0xC6, CHR 0xC7,
      CHR 0xC8, CHR 0xC9, CHR 0xCA, CHR 0xCB, CHR 0xCC, CHR 0xCD, CHR 0xCE, CHR 0xCF,
      CHR 0xD0, CHR 0xD1, CHR 0xD2, CHR 0xD3, CHR 0xD4, CHR 0xD5, CHR 0xD6,
      CHR 0xD8, CHR 0xD9, CHR 0xDA, CHR 0xDB, CHR 0xDC, CHR 0xDD, CHR 0xDE]"

definition lower_letters :: string where
  "lower_letters = ''abcdefghijklmnopqrstuvwxyz'' @
     [CHR 0xE0, CHR 0xE1, CHR 0xE2, CHR 0xE3, CHR 0xE4, CHR 0xE5, CHR 0xE6, CHR 0xE7,
      CHR 0xE8, CHR 0xE9, CHR 0xEA, CHR 0xEB, CHR 0xEC, CHR 0xED, CHR 0xEE, CHR 0xEF,
      CHR 0xF0, CHR 0xF1, CHR 0xF2, CHR 0xF3, CHR 0xF4, CHR 0xF5, CHR 0xF6,
      CHR 0xF8, CHR 0xF9, CHR 0xFA, CHR 0xFB, CHR 0xFC, CHR 0xFD, CHR 0xFE]"

definition lower_char :: "char \<Rightarrow> char" where
  "lower_char c = (case map_of (zip upper_letters lower_letters) c of Some l \<Rightarrow> l | None \<Rightarrow> c)"

definition py_lower :: "string \<Rightarrow> string" where
  "py_lower s = map lower_char s"

text \<open>\<^verbatim>\<open>s.split()\<close>: the maximal runs of non-space characters.\<close>

fun split_ws :: "string \<Rightarrow> string \<Rightarrow> string list" where
  "split_ws cur [] = (if cur = [] then [] else [rev cur])"
| "split_ws cur (c # cs) =
     (if is_space c then (if cur = [] then split_ws [] cs else rev cur # split_ws [] cs)
      else split_ws (c # cur) cs)"

fun py_join :: "string \<Rightarrow> string list \<Rightarrow> string" where
  "py_join sep [] = []"
| "py_join sep [x] = x"
| "py_join sep (x # y # ys) = x @ sep @ py_join sep (y # ys)"

text \<open>
  \<^verbatim>\<open>s.split(sep)\<close> for a separator that is not empty: the pieces between the occurrences
  of \<open>sep\<close>, found from left to right without overlap.
\<close>

fun split_sep :: "string \<Rightarrow> string \<Rightarrow> string \<Rightarrow> string list" where
  "split_sep sep cur [] = [rev cur]"
| "split_sep sep cur (c # cs) =
     (if sep \<noteq> [] \<and> prefix sep (c # cs)
      then rev cur # split_sep sep [] (drop (length sep) (c # cs))
      else split_sep sep (c # cur) cs)"

definition py_split :: "string \<Rightarrow> string \<Rightarrow> string list" where
  "py_split s sep = split_sep sep [] s"

text \<open>\<^verbatim>\<open>s.replace(old, new)\<close> for \<open>old\<close> not empty.\<close>

definition py_replace :: "string \<Rightarrow> string \<Rightarrow> string \<Rightarrow> string" where
  "py_replace s old new = py_join new (py_split s old)"

text \<open>\<^verbatim>\<open>sub in s\<close>\<close>

fun str_contains :: "string \<Rightarrow> string \<Rightarrow> bool" where
  "str_contains [] sub = (sub = [])"
| "str_contains (c # cs) sub = (prefix sub (c # cs) \<or> str_contains cs sub)"

text \<open>\<^verbatim>\<open>str(e)\<close>. The decoder's message is given without its position suffix.\<close>

fun error_str :: "py_error \<Rightarrow> string" where
  "error_str ZeroDivisionError = ''division by zero''"
| "error_str (KeyError k) = [CHR 0x27] @ k @ [CHR 0x27]"
| "error_str (TypeError m) = m"
| "error_str (ValueError m) = m"
| "error_str (JSONDecodeError m) = m"
| "error_str (Exception m) = m"
| "error_str (Unmodelled m) = m"

subsection \<open>JSON values and json.loads\<close>

text \<open>
  The standard decoder, on the grammar it accepts: white space is space, tab, line feed
  and carriage return; an integer literal becomes \<open>JInt\<close>; a literal with a fraction or an
  exponent, and NaN, Infinity and -Infinity, become \<open>JFloat\<close> with the literal as written;
  an object becomes a dict in which a repeated key keeps its first position and its last
  value. A \<^verbatim>\<open>\uXXXX\<close> escape of a code point above 255 has no value in \<^typ>\<open>string\<close> and
  yields \<open>Unmodelled\<close>.
\<close>

datatype json =
    JNull
  | JBool bool
  | JInt int
  | JFloat string
  | JStr string
  | JArr "json list"
  | JObj "(string \<times> json) list"

definition json_ws :: "char \<Rightarrow> bool" where
  "json_ws c \<longleftrightarrow> c \<in> set [CHR '' '', CHR 0x09, CHR 0x0A, CHR 0x0D]"

definition skip_ws :: "string \<Rightarrow> string" where
  "skip_ws s = dropWhile json_ws s"

definition is_digit :: "char \<Rightarrow> bool" where
  "is_digit c \<longleftrightarrow> c \<in> set ''0123456789''"

definition digit_value :: "char \<Rightarrow> nat" where
  "digit_value c =
     (case map_of (zip ''0123456789abcdefABCDEF''
                       [0, 1, 2, 3, 4, 5, 6, 7, 8, 9, 10, 11, 12, 13, 14, 15, 10, 11, 12, 13, 14, 15]) c of
        Some n \<Rightarrow> n
      | None \<Rightarrow> 0)"

definition is_hex_digit :: "char \<Rightarrow> bool" where
  "is_hex_digit c \<longleftrightarrow> c \<in> set ''0123456789abcdefABCDEF''"

definition number_value :: "nat \<Rightarrow> string \<Rightarrow> nat" where
  "number_value base ds = foldl (\<lambda>n c. base * n + digit_value c) 0 ds"

definition is_control :: "char \<Rightarrow> bool" where
  "is_control c \<longleftrightarrow> (of_char c :: nat) < 32"

definition BACKSLASH :: "(char \<times> char) list" where
  "BACKSLASH =
     [(CHR 0x22, CHR 0x22), (CHR 0x5C, CHR 0x5C), (CHR ''/'', CHR ''/''),
      (CHR ''b'', CHR 0x08), (CHR ''f'', CHR 0x0C), (CHR ''n'', CHR 0x0A),
      (CHR ''r'', CHR 0x0D), (CHR ''t'', CHR 0x09)]"

definition decode_uXXXX :: "string \<Rightarrow> py_error + char" where
  "decode_uXXXX r =
     (if length r \<ge> 4 \<and> list_all is_hex_digit (take 4 r) then
        (let uni = number_value 16 (take 4 r)
         in if uni < 256 then Inr (char_of uni) else Inl (Unmodelled ''escape beyond Latin-1''))
      else Inl (JSONDecodeError (''Invalid '' @ [CHR 0x5C] @ ''uXXXX escape'')))"

text \<open>scanstring: s is the text after the opening quote; acc the characters read so far, reversed.\<close>

fun scanstring :: "string \<Rightarrow> string \<Rightarrow> py_error + (string \<times> string)" where
  "scanstring acc [] = Inl (JSONDecodeError ''Unterminated string starting at'')"
| "scanstring acc [c] =
     (if c = CHR 0x22 then Inr (rev acc, [])
      else if c \<noteq> CHR 0x5C \<and> is_control c
      then Inl (JSONDecodeError ''Invalid control character at'')
      else Inl (JSONDecodeError ''Unterminated string starting at''))"
| "scanstring acc (c # esc # r) =
     (if c = CHR 0x22 then Inr (rev acc, esc # r)
      else if c = CHR 0x5C then
        (if esc = CHR ''u'' then
           (case decode_uXXXX r of
              Inl e \<Rightarrow> Inl e
            | Inr ch \<Rightarrow> scanstring (ch # acc) (drop 4 r))
         else
           (case map_of BACKSLASH esc of
              Some ch \<Rightarrow> scanstring (ch # acc) r
            | None \<Rightarrow> Inl (JSONDecodeError (''Invalid '' @ [CHR 0x5C] @ ''escape''))))
      else if is_control c then Inl (JSONDecodeError ''Invalid control character at'')
      else scanstring (c # acc) (esc # r))"

text \<open>match_number: the longest prefix matching the number pattern, with what follows it.\<close>

definition match_integer :: "string \<Rightarrow> (string \<times> string) option" where
  "match_integer s =
     (let (sign, t) = (case s of c # r \<Rightarrow> if c = CHR ''-'' then ([c], r) else ([], s) | [] \<Rightarrow> ([], s))
      in case t of
           [] \<Rightarrow> None
         | d # r \<Rightarrow>
             if d = CHR ''0'' then Some (sign @ [d], r)
             else if is_digit d then Some (sign @ d # takeWhile is_digit r, dropWhile is_digit r)
             else None)"

definition match_frac :: "string \<Rightarrow> string \<times> string" where
  "match_frac s =
     (case s of
        c # d # r \<Rightarrow>
          if c = CHR ''.'' \<and> is_digit d then (c # d # takeWhile is_digit r, dropWhile is_digit r)
          else ([], s)
      | _ \<Rightarrow> ([], s))"

definition match_exp :: "string \<Rightarrow> string \<times> string" where
  "match_exp s =
     (case s of
        e # t \<Rightarrow>
          if e = CHR ''e'' \<or> e = CHR ''E'' then
            (let (sign, u) = (case t of c # r \<Rightarrow>
                                 if c = CHR ''-'' \<or> c = CHR ''+'' then ([c], r) else ([], t)
                               | [] \<Rightarrow> ([], t))
             in case u of
                  d # r \<Rightarrow> if is_digit d
                           then (e # sign @ d # takeWhile is_digit r, dropWhile is_digit r)
                           else ([], s)
                | [] \<Rightarrow> ([], s))
          else ([], s)
      | [] \<Rightarrow> ([], s))"

definition int_of_literal :: "string \<Rightarrow> int" where
  "int_of_literal s =
     (case s of c # r \<Rightarrow> if c = CHR ''-'' then - int (number_value 10 r)
                         else int (number_value 10 s)
      | [] \<Rightarrow> 0)"

definition match_number :: "string \<Rightarrow> (json \<times> string) option" where
  "match_number s =
     (case match_integer s of
        None \<Rightarrow> None
      | Some (integer, r1) \<Rightarrow>
          (let (frac, r2) = match_frac r1; (exp, r3) = match_exp r2
           in if frac \<noteq> [] \<or> exp \<noteq> [] then Some (JFloat (integer @ frac @ exp), r3)
              else Some (JInt (int_of_literal integer), r3)))"

definition scan_literal :: "string \<Rightarrow> py_error + (json \<times> string)" where
  "scan_literal s =
     (if prefix ''null'' s then Inr (JNull, drop 4 s)
      else if prefix ''true'' s then Inr (JBool True, drop 4 s)
      else if prefix ''false'' s then Inr (JBool False, drop 5 s)
      else case match_number s of
        Some r \<Rightarrow> Inr r
      | None \<Rightarrow>
          if prefix ''NaN'' s then Inr (JFloat ''NaN'', drop 3 s)
          else if prefix ''Infinity'' s then Inr (JFloat ''Infinity'', drop 8 s)
          else if prefix ''-Infinity'' s then Inr (JFloat ''-Infinity'', drop 9 s)
          else Inl (JSONDecodeError ''Expecting value''))"

lemma scanstring_shorter: "scanstring acc s = Inr (k, r) \<Longrightarrow> length r < length s"
proof (induction acc s rule: scanstring.induct)
  case (1 acc)
  then show ?case by simp
next
  case (2 acc c)
  then show ?case by (simp split: if_splits)
next
  case (3 acc c esc r')
  show ?case
  proof (cases "c = CHR 0x22")
    case True
    with 3 show ?thesis by simp
  next
    case nq: False
    show ?thesis
    proof (cases "c = CHR 0x5C")
      case bs: True
      show ?thesis
      proof (cases "esc = CHR ''u''")
        case True
        with 3 nq bs show ?thesis
          by (cases "decode_uXXXX r'") (fastforce simp: less_Suc_eq)+
      next
        case False
        with 3 nq bs show ?thesis
          by (cases "map_of BACKSLASH esc") (fastforce simp: less_Suc_eq)+
      qed
    next
      case False
      with 3 nq show ?thesis
        by (cases "is_control c") (fastforce simp: less_Suc_eq)+
    qed
  qed
qed

lemma length_dropWhile_le': "length (dropWhile P xs) \<le> length xs"
  by (induction xs) auto

lemma skip_ws_le: "length (skip_ws s) \<le> length s"
  by (simp add: skip_ws_def length_dropWhile_le')

lemma skip_ws_Cons: "skip_ws s = c # r \<Longrightarrow> length r < length s"
  using skip_ws_le [of s] by simp

text \<open>
  The scanner and the loops over the members of an object and the elements of an array.
  \<open>parse_members\<close> starts after the opening quote of a key, \<open>parse_elements\<close> at a value.
  The two comparisons of lengths before the recursive calls of the loops are what the
  termination proof rests on: a member or an element that has been read has consumed
  input.
\<close>

function scan_once :: "string \<Rightarrow> py_error + (json \<times> string)"
  and parse_members :: "(string \<times> json) list \<Rightarrow> string \<Rightarrow> py_error + (json \<times> string)"
  and parse_elements :: "json list \<Rightarrow> string \<Rightarrow> py_error + (json \<times> string)"
where
  "scan_once s =
     (case s of
        [] \<Rightarrow> Inl (JSONDecodeError ''Expecting value'')
      | c # cs \<Rightarrow>
          if c = CHR 0x22 then
            (case scanstring [] cs of Inl e \<Rightarrow> Inl e | Inr (str, r) \<Rightarrow> Inr (JStr str, r))
          else if c = CHR ''{'' then
            (case skip_ws cs of
               [] \<Rightarrow> Inl (JSONDecodeError ''Expecting property name enclosed in double quotes'')
             | d # r \<Rightarrow>
                 if d = CHR ''}'' then Inr (JObj [], r)
                 else if d = CHR 0x22 then parse_members [] r
                 else Inl (JSONDecodeError ''Expecting property name enclosed in double quotes''))
          else if c = CHR ''['' then
            (case skip_ws cs of
               [] \<Rightarrow> Inl (JSONDecodeError ''Expecting value'')
             | d # r \<Rightarrow>
                 if d = CHR '']'' then Inr (JArr [], r)
                 else parse_elements [] (d # r))
          else scan_literal s)"
| "parse_members pairs s =
     (case scanstring [] s of
        Inl e \<Rightarrow> Inl e
      | Inr (key, s1) \<Rightarrow>
          (case skip_ws s1 of
             [] \<Rightarrow> Inl (JSONDecodeError ''Expecting : delimiter'')
           | c # s2 \<Rightarrow>
               if c \<noteq> CHR '':'' then Inl (JSONDecodeError ''Expecting : delimiter'')
               else
                 (case scan_once (skip_ws s2) of
                    Inl e \<Rightarrow> Inl e
                  | Inr (v, s3) \<Rightarrow>
                      (case skip_ws s3 of
                         [] \<Rightarrow> Inl (JSONDecodeError ''Expecting , delimiter'')
                       | d # s4 \<Rightarrow>
                           if d = CHR ''}'' then Inr (JObj (AList.update key v pairs), s4)
                           else if d \<noteq> CHR '','' then Inl (JSONDecodeError ''Expecting , delimiter'')
                           else
                             (case skip_ws s4 of
                                [] \<Rightarrow> Inl (JSONDecodeError ''Expecting property name enclosed in double quotes'')
                              | q # s5 \<Rightarrow>
                                  if q \<noteq> CHR 0x22
                                  then Inl (JSONDecodeError ''Expecting property name enclosed in double quotes'')
                                  else if length s5 < length s
                                  then parse_members (AList.update key v pairs) s5
                                  else Inl (Unmodelled ''no input consumed''))))))"
| "parse_elements items s =
     (case scan_once s of
        Inl e \<Rightarrow> Inl e
      | Inr (v, s1) \<Rightarrow>
          (case skip_ws s1 of
             [] \<Rightarrow> Inl (JSONDecodeError ''Expecting , delimiter'')
           | d # s2 \<Rightarrow>
               if d = CHR '']'' then Inr (JArr (items @ [v]), s2)
               else if d \<noteq> CHR '','' then Inl (JSONDecodeError ''Expecting , delimiter'')
               else if length (skip_ws s2) < length s
               then parse_elements (items @ [v]) (skip_ws s2)
               else Inl (Unmodelled ''no input consumed'')))"
  by pat_completeness auto
termination
  apply (relation "measure (\<lambda>x. case x of Inl s \<Rightarrow> 2 * length s
                                   | Inr (Inl (pairs, s)) \<Rightarrow> 2 * length s
                                   | Inr (Inr (items, s)) \<Rightarrow> 2 * length s + 1)")
  apply (auto dest!: skip_ws_Cons scanstring_shorter simp: skip_ws_le le_less_trans)
  subgoal for s b x22
    using skip_ws_le [of x22] by simp
  done

definition json_loads :: "string \<Rightarrow> py_error + json" where
  "json_loads s =
     (case scan_once (skip_ws s) of
        Inl e \<Rightarrow> Inl e
      | Inr (obj, r) \<Rightarrow> if skip_ws r \<noteq> [] then Inl (JSONDecodeError ''Extra data'') else Inr obj)"



subsection \<open>The completion service\<close>

text \<open>
  \<^verbatim>\<open>requests.post\<close>, \<^verbatim>\<open>raise_for_status\<close> and the decoding of the envelope are outside the
  repository. Their outcome is one of: a timeout; an HTTP error status (the text of the
  error and the body of the response); another request exception (a body that is not JSON
  is one of them); an envelope with or without its \<^verbatim>\<open>response\<close> field. The service is a
  function of the number of calls made before, of the prompt and of the timeout, so it may
  answer the same prompt differently each time. Every call is logged with its prompt and
  its timeout in seconds.
\<close>

datatype post_outcome =
    PostTimeout
  | PostHTTPError string string
  | PostRequestException string
  | PostBody "string option"

type_synonym service = "nat \<Rightarrow> string \<Rightarrow> nat \<Rightarrow> post_outcome"

type_synonym call_log = "(string \<times> nat) list"

text \<open>The except clauses shared by every copy of \<^verbatim>\<open>run_ollama_inference\<close>.\<close>

definition request_errors :: "post_outcome \<Rightarrow> py_error option" where
  "request_errors out =
     (case out of
        PostTimeout \<Rightarrow> Some (Exception ''Ollama inference timed out.'')
      | PostHTTPError http_err text \<Rightarrow>
          Some (Exception (''HTTP error occurred: '' @ http_err @ '' - '' @ text))
      | PostRequestException req_err \<Rightarrow> Some (Exception (''Request failed: '' @ req_err))
      | PostBody r \<Rightarrow> None)"

text \<open>
  erevaluation.py and ner.py end with \<^verbatim>\<open>return response.json().get('response', '')\<close>;
  loopcoref.py and resolve_coref.py with \<^verbatim>\<open>return response.json()['response']\<close>, which
  raises KeyError when the field is missing.
\<close>

definition run_ollama_inference_get ::
  "service \<Rightarrow> string \<Rightarrow> nat \<Rightarrow> call_log \<Rightarrow> (py_error + string) \<times> call_log" where
  "run_ollama_inference_get svc prompt timeout calls =
     (let out = svc (length calls) prompt timeout
      in (case request_errors out of
            Some e \<Rightarrow> Inl e
          | None \<Rightarrow> (case out of PostBody (Some r) \<Rightarrow> Inr r | _ \<Rightarrow> Inr []),
          calls @ [(prompt, timeout)]))"

definition run_ollama_inference ::
  "service \<Rightarrow> string \<Rightarrow> nat \<Rightarrow> call_log \<Rightarrow> (py_error + string) \<times> call_log" where
  "run_ollama_inference svc prompt timeout calls =
     (let out = svc (length calls) prompt timeout
      in (case request_errors out of
            Some e \<Rightarrow> Inl e
          | None \<Rightarrow> (case out of PostBody (Some r) \<Rightarrow> Inr r | _ \<Rightarrow> Inl (KeyError ''response'')),
          calls @ [(prompt, timeout)]))"

text \<open>\<^verbatim>\<open>"timed out" in str(e).lower()\<close>\<close>

definition timed_out :: "py_error \<Rightarrow> bool" where
  "timed_out e = str_contains (py_lower (error_str e)) ''timed out''"



section \<open>erevaluation/erevaluation.py: the batch extraction driver\<close>

text \<open>
  A cell of the frame that \<^verbatim>\<open>pd.read_csv\<close> returns: a str for a cell with text; a float
  (NaN) for an empty cell and a number for a numeric one, which are not strings.
\<close>

datatype cell = Str string | NotStr

record row =
  Entity_Types :: cell
  Input_Text :: cell

text \<open>\<^verbatim>\<open>s.replace(old, new)\<close> raises TypeError when \<open>new\<close> is not a str.\<close>

definition replace_with_cell :: "string \<Rightarrow> string \<Rightarrow> cell \<Rightarrow> py_error + string" where
  "replace_with_cell s old c =
     (case c of
        Str new \<Rightarrow> Inr (py_replace s old new)
      | NotStr \<Rightarrow> Inl (TypeError ''replace() argument 2 must be str''))"

definition full_prompt_of :: "string \<Rightarrow> row \<Rightarrow> py_error + string" where
  "full_prompt_of PROMPT_TEMPLATE r =
     (case replace_with_cell PROMPT_TEMPLATE ''{entity_types}'' (Entity_Types r) of
        Inl e \<Rightarrow> Inl e
      | Inr full_prompt \<Rightarrow> replace_with_cell full_prompt ''{input_text}'' (Input_Text r))"

text \<open>
  The body of \<^verbatim>\<open>for idx, row in df.iterrows()\<close>. The prompt is built before the \<^verbatim>\<open>try\<close>:
  an exception there leaves main, and nothing is saved. The call is inside
  \<^verbatim>\<open>try ... except Exception as e\<close>, and \<^verbatim>\<open>outputs.append(llm_output)\<close> follows it on both
  paths.
\<close>

fun process_rows ::
  "service \<Rightarrow> string \<Rightarrow> nat \<Rightarrow> row list \<Rightarrow> string list \<Rightarrow> call_log
     \<Rightarrow> py_error + string list \<times> call_log" where
  "process_rows svc PROMPT_TEMPLATE timeout [] outputs calls = Inr (outputs, calls)"
| "process_rows svc PROMPT_TEMPLATE timeout (r # rows) outputs calls =
     (case full_prompt_of PROMPT_TEMPLATE r of
        Inl e \<Rightarrow> Inl e
      | Inr full_prompt \<Rightarrow>
          (case run_ollama_inference_get svc full_prompt timeout calls of
             (Inr llm_output, calls') \<Rightarrow>
               process_rows svc PROMPT_TEMPLATE timeout rows (outputs @ [llm_output]) calls'
           | (Inl e, calls') \<Rightarrow>
               process_rows svc PROMPT_TEMPLATE timeout rows
                 (outputs @ [''ERROR: '' @ error_str e]) calls'))"

text \<open>\<^verbatim>\<open>df.head(n)\<close>: the first n rows, all but the last -n rows when n is negative.\<close>

definition df_head :: "int \<Rightarrow> 'a list \<Rightarrow> 'a list" where
  "df_head n rows = (if 0 \<le> n then take (nat n) rows else take (nat (int (length rows) + n)) rows)"

text \<open>\<^verbatim>\<open>if args.limit: df = df.head(args.limit)\<close>: no limit when it is None or 0.\<close>

definition limited_rows :: "int option \<Rightarrow> row list \<Rightarrow> row list" where
  "limited_rows limit rows =
     (case limit of None \<Rightarrow> rows | Some n \<Rightarrow> if n = 0 then rows else df_head n rows)"

text \<open>
  main returns the column that is stored as \<^verbatim>\<open>df["LLM_Output"]\<close> and saved, or the
  exception that ends it.
\<close>

definition erevaluation_main ::
  "service \<Rightarrow> string \<Rightarrow> nat \<Rightarrow> int option \<Rightarrow> row list \<Rightarrow> py_error + string list" where
  "erevaluation_main svc PROMPT_TEMPLATE timeout limit rows =
     (case process_rows svc PROMPT_TEMPLATE timeout (limited_rows limit rows) [] [] of
        Inl e \<Rightarrow> Inl e
      | Inr (outputs, calls) \<Rightarrow> Inr outputs)"

text \<open>
  What the claim describes for the row at position \<open>idx\<close>, from the outcome of the call
  that carries its prompt: the result, or the error text.
\<close>

definition row_output :: "service \<Rightarrow> nat \<Rightarrow> nat \<Rightarrow> string \<Rightarrow> string" where
  "row_output svc timeout idx full_prompt =
     (case svc idx full_prompt timeout of
        PostTimeout \<Rightarrow> ''ERROR: Ollama inference timed out.''
      | PostHTTPError http_err text \<Rightarrow> ''ERROR: HTTP error occurred: '' @ http_err @ '' - '' @ text
      | PostRequestException req_err \<Rightarrow> ''ERROR: Request failed: '' @ req_err
      | PostBody None \<Rightarrow> []
      | PostBody (Some llm_output) \<Rightarrow> llm_output)"

text \<open>A row both of whose cells are strings, and the prompt of such a row.\<close>

definition string_cells :: "row \<Rightarrow> bool" where
  "string_cells r = (Entity_Types r \<noteq> NotStr \<and> Input_Text r \<noteq> NotStr)"

definition prompt_text :: "string \<Rightarrow> row \<Rightarrow> string" where
  "prompt_text PROMPT_TEMPLATE r =
     (case full_prompt_of PROMPT_TEMPLATE r of Inr full_prompt \<Rightarrow> full_prompt | Inl e \<Rightarrow> [])"


section \<open>erevaluation/evaluation2.py: the scorer\<close>

subsection \<open>compute_prf1\<close>

text \<open>
  \<^verbatim>\<open>tp / (tp + fp)\<close> is Python's true division: it raises ZeroDivisionError on a zero
  divisor. The quotient of two integers is taken exactly here (a real number), where
  Python rounds it to the nearest double.
\<close>

definition py_truediv :: "real \<Rightarrow> real \<Rightarrow> py_error + real" where
  "py_truediv a b = (if b = 0 then Inl ZeroDivisionError else Inr (a / b))"

definition compute_prf1 :: "int \<Rightarrow> int \<Rightarrow> int \<Rightarrow> py_error + (real \<times> real \<times> real)" where
  "compute_prf1 tp fp fn =
     (case (if tp + fp > 0 then py_truediv (of_int tp) (of_int (tp + fp)) else Inr 0) of
        Inl e \<Rightarrow> Inl e
      | Inr precision \<Rightarrow>
     (case (if tp + fn > 0 then py_truediv (of_int tp) (of_int (tp + fn)) else Inr 0) of
        Inl e \<Rightarrow> Inl e
      | Inr recall \<Rightarrow>
     (case (if precision + recall > 0
            then py_truediv (2 * precision * recall) (precision + recall) else Inr 0) of
        Inl e \<Rightarrow> Inl e
      | Inr f1 \<Rightarrow> Inr (precision, recall, f1))))"

subsection \<open>score_entities\<close>

type_synonym entity = "string \<times> string"

record counts =
  tp :: nat
  fp :: nat
  fn :: nat

definition zero_counts :: counts where
  "zero_counts = \<lparr>tp = 0, fp = 0, fn = 0\<rparr>"

definition ALL_ENTITY_TYPES :: "string list" where
  "ALL_ENTITY_TYPES =
     [''person'', ''means_of_transportation'', ''means_of_communication'', ''routes'',
      ''location'', ''smuggled_items'', ''organization'']"

text \<open>
  \<^verbatim>\<open>if t not in per_type_counts: per_type_counts[t] = {"tp": 0, "fp": 0, "fn": 0}\<close>
\<close>

definition ensure_type :: "string \<Rightarrow> (string, counts) dict \<Rightarrow> (string, counts) dict" where
  "ensure_type t d = (if \<not> dict_contains d t then AList.update t zero_counts d else d)"

text \<open>\<^verbatim>\<open>per_type_counts[t]["tp"] += 1\<close>, after the entry has been ensured; likewise fp, fn.\<close>

definition add_tp :: "string \<Rightarrow> (string, counts) dict \<Rightarrow> (string, counts) dict" where
  "add_tp t d = AList.map_entry t (\<lambda>c. c\<lparr>tp := tp c + 1\<rparr>) (ensure_type t d)"

definition add_fp :: "string \<Rightarrow> (string, counts) dict \<Rightarrow> (string, counts) dict" where
  "add_fp t d = AList.map_entry t (\<lambda>c. c\<lparr>fp := fp c + 1\<rparr>) (ensure_type t d)"

definition add_fn :: "string \<Rightarrow> (string, counts) dict \<Rightarrow> (string, counts) dict" where
  "add_fn t d = AList.map_entry t (\<lambda>c. c\<lparr>fn := fn c + 1\<rparr>) (ensure_type t d)"

record score_state =
  gold_used :: "bool list"
  overall :: counts
  per_type_counts :: "(string, counts) dict"

text \<open>
  The inner loop \<^verbatim>\<open>for i, (g_name, g_type) in enumerate(gold_entities)\<close>: the index of
  the first gold entity that is unused and equal to the prediction, \<open>None\<close> when the loop
  ends without \<^verbatim>\<open>break\<close>. The first argument is the index of the head of the list.
\<close>

fun find_match :: "nat \<Rightarrow> entity list \<Rightarrow> bool list \<Rightarrow> entity \<Rightarrow> nat option" where
  "find_match i [] used p = None"
| "find_match i (g # gs) used p =
     (if (\<not> used ! i) \<and> fst p = fst g \<and> snd p = snd g then Some i
      else find_match (Suc i) gs used p)"

text \<open>Step 1, one prediction: a true positive marks the gold entity, else a false positive.\<close>

definition score_pred :: "entity list \<Rightarrow> entity \<Rightarrow> score_state \<Rightarrow> score_state" where
  "score_pred gold_entities p st =
     (case find_match 0 gold_entities (gold_used st) p of
        Some match_index \<Rightarrow>
          st\<lparr>overall := (overall st)\<lparr>tp := tp (overall st) + 1\<rparr>,
             gold_used := (gold_used st)[match_index := True],
             per_type_counts := add_tp (snd p) (per_type_counts st)\<rparr>
      | None \<Rightarrow>
          st\<lparr>overall := (overall st)\<lparr>fp := fp (overall st) + 1\<rparr>,
             per_type_counts := add_fp (snd p) (per_type_counts st)\<rparr>)"

fun score_preds :: "entity list \<Rightarrow> entity list \<Rightarrow> score_state \<Rightarrow> score_state" where
  "score_preds gold_entities [] st = st"
| "score_preds gold_entities (p # ps) st =
     score_preds gold_entities ps (score_pred gold_entities p st)"

text \<open>Step 2: \<^verbatim>\<open>for used_flag, (g_name, g_type) in zip(gold_used, gold_entities)\<close>.\<close>

fun score_unused :: "(bool \<times> entity) list \<Rightarrow> score_state \<Rightarrow> score_state" where
  "score_unused [] st = st"
| "score_unused ((used_flag, g) # rest) st =
     score_unused rest
       (if \<not> used_flag
        then st\<lparr>overall := (overall st)\<lparr>fn := fn (overall st) + 1\<rparr>,
                per_type_counts := add_fn (snd g) (per_type_counts st)\<rparr>
        else st)"

definition score_entities :: "entity list \<Rightarrow> entity list \<Rightarrow> counts \<times> (string, counts) dict" where
  "score_entities gold_entities pred_entities =
     (let st0 = \<lparr>gold_used = replicate (length gold_entities) False,
                 overall = zero_counts,
                 per_type_counts = map (\<lambda>etype. (etype, zero_counts)) ALL_ENTITY_TYPES\<rparr>;
          st1 = score_preds gold_entities pred_entities st0;
          st2 = score_unused (zip (gold_used st1) gold_entities) st1
      in (overall st2, per_type_counts st2))"

subsection \<open>Relation scoring, from main\<close>

type_synonym relation = "string \<times> string"

text \<open>\<^verbatim>\<open>gold_rel.index(pr)\<close>: the first position of \<open>pr\<close>; ValueError when absent.\<close>

fun list_index :: "'a list \<Rightarrow> 'a \<Rightarrow> nat option" where
  "list_index [] x = None"
| "list_index (y # ys) x = (if y = x then Some 0 else map_option Suc (list_index ys x))"

record rel_state =
  gold_rel_used :: "bool list"
  rel_counts :: counts

definition score_rel :: "relation list \<Rightarrow> relation \<Rightarrow> rel_state \<Rightarrow> rel_state" where
  "score_rel gold_rel pr st =
     (if pr \<in> set gold_rel then
        (case list_index gold_rel pr of
           Some m \<Rightarrow>
             if \<not> gold_rel_used st ! m
             then st\<lparr>rel_counts := (rel_counts st)\<lparr>tp := tp (rel_counts st) + 1\<rparr>,
                     gold_rel_used := (gold_rel_used st)[m := True]\<rparr>
             else st\<lparr>rel_counts := (rel_counts st)\<lparr>fp := fp (rel_counts st) + 1\<rparr>\<rparr>
         | None \<Rightarrow> st)
      else st\<lparr>rel_counts := (rel_counts st)\<lparr>fp := fp (rel_counts st) + 1\<rparr>\<rparr>)"

fun score_rels :: "relation list \<Rightarrow> relation list \<Rightarrow> rel_state \<Rightarrow> rel_state" where
  "score_rels gold_rel [] st = st"
| "score_rels gold_rel (pr # prs) st = score_rels gold_rel prs (score_rel gold_rel pr st)"

definition score_relations :: "relation list \<Rightarrow> relation list \<Rightarrow> counts" where
  "score_relations gold_rel pred_rel =
     (let st0 = \<lparr>gold_rel_used = replicate (length gold_rel) False, rel_counts = zero_counts\<rparr>;
          st1 = score_rels gold_rel pred_rel st0
      in (rel_counts st1)\<lparr>fn := count_list (gold_rel_used st1) False\<rparr>)"

subsection \<open>The greedy policy, as the specification words it\<close>

text \<open>
  For each prediction in original order, match the first not-yet-used gold item equal to
  it and count a true positive, else count a false positive; at the end every unused
  gold item is a false negative. The unused gold items are kept as a list, from which a
  matched item is removed (\<^const>\<open>remove1\<close> removes the first occurrence).
\<close>

fun greedy_policy :: "'a list \<Rightarrow> 'a list \<Rightarrow> counts \<Rightarrow> counts" where
  "greedy_policy unused [] c = c\<lparr>fn := fn c + length unused\<rparr>"
| "greedy_policy unused (p # ps) c =
     (if p \<in> set unused then greedy_policy (remove1 p unused) ps (c\<lparr>tp := tp c + 1\<rparr>)
      else greedy_policy unused ps (c\<lparr>fp := fp c + 1\<rparr>))"

definition greedy_counts :: "'a list \<Rightarrow> 'a list \<Rightarrow> counts" where
  "greedy_counts gold pred = greedy_policy gold pred zero_counts"

text \<open>
  The invariant of both scoring loops: the per-type dict has distinct keys and its
  buckets add up to the overall counters.
\<close>

definition partitioned :: "score_state \<Rightarrow> bool" where
  "partitioned st \<longleftrightarrow>
     distinct (map fst (per_type_counts st)) \<and>
     sum_list (map (\<lambda>kv. tp (snd kv)) (per_type_counts st)) = tp (overall st) \<and>
     sum_list (map (\<lambda>kv. fp (snd kv)) (per_type_counts st)) = fp (overall st) \<and>
     sum_list (map (\<lambda>kv. fn (snd kv)) (per_type_counts st)) = fn (overall st)"


text \<open>A service for the examples: a timeout, then an answer, then HTTP errors.\<close>

definition demo_service :: service where
  "demo_service n prompt timeout =
     (if n = 0 then PostTimeout else if n = 1 then PostBody (Some ''ok'')
      else PostHTTPError ''500'' ''down'')"


section \<open>linkkgfull/loopcoref.py: the coreference resolver\<close>

text \<open>
  \<^verbatim>\<open>json.dumps(payload, indent=2)\<close> belongs to the standard library; the functions below
  take it as the parameter \<open>dumps\<close>.
\<close>

definition coref_extract_json_from_ollama :: "string \<Rightarrow> py_error + (string, json) dict" where
  "coref_extract_json_from_ollama raw_response =
     (let cleaned = py_strip raw_response
      in if \<not> prefix ''{'' cleaned
         then Inl (ValueError (''Output does not start with '' @ [CHR 0x27] @ ''{'' @ [CHR 0x27]
                                 @ ''. Unexpected format:'' @ [CHR 0x0A] @ take 200 cleaned))
         else
           (case json_loads cleaned of
              Inl (JSONDecodeError m) \<Rightarrow> Inl (ValueError (''Invalid JSON format. '' @ m))
            | Inl e \<Rightarrow> Inl e
            | Inr (JObj result) \<Rightarrow>
                if dict_contains result ''RESOLVED_ENTITIES''
                   \<and> dict_contains result ''AUXILIARY_DESCRIPTIONS''
                then Inr result
                else Inl (ValueError ''Valid JSON but missing required keys.'')
            | Inr _ \<Rightarrow> Inl (TypeError ''not an object'')))"

definition coref_inject_prompt ::
  "(json \<Rightarrow> string) \<Rightarrow> string \<Rightarrow> (string, json) dict \<Rightarrow> (string, json) dict
     \<Rightarrow> json \<Rightarrow> json \<Rightarrow> string \<Rightarrow> string" where
  "coref_inject_prompt dumps prompt_template resolved aux ner_entities aux_current text =
     py_strip prompt_template @ [CHR 0x0A, CHR 0x0A] @
     dumps (JObj [(''RESOLVED_ENTITIES'', JObj resolved),
                  (''AUXILIARY_DESCRIPTIONS'', JObj aux),
                  (''IDENTIFIED_ENTITIES'',
                     JObj [(''NER_ENTITIES'', ner_entities),
                           (''PROPER_NOUN_DESCRIPTION'', aux_current)]),
                  (''CHUNK_TEXT'', JStr text)])"

text \<open>One call to the service followed by \<^verbatim>\<open>extract_json_from_ollama\<close>, inside one \<^verbatim>\<open>try\<close>.\<close>

definition coref_attempt ::
  "service \<Rightarrow> string \<Rightarrow> nat \<Rightarrow> call_log \<Rightarrow> (py_error + (string, json) dict) \<times> call_log" where
  "coref_attempt svc full_prompt timeout calls =
     (case run_ollama_inference svc full_prompt timeout calls of
        (Inl e, calls') \<Rightarrow> (Inl e, calls')
      | (Inr result_raw, calls') \<Rightarrow> (coref_extract_json_from_ollama result_raw, calls'))"

text \<open>
  \<^verbatim>\<open>while attempt < max_retries and not success\<close>. The loop returns the parsed result, or
  the attempt counter and the last error when it ends without success.
\<close>

function coref_retry_loop ::
  "service \<Rightarrow> string \<Rightarrow> nat \<Rightarrow> nat \<Rightarrow> bool \<Rightarrow> py_error option \<Rightarrow> call_log
     \<Rightarrow> (nat \<times> py_error option + (string, json) dict) \<times> call_log" where
  "coref_retry_loop svc full_prompt max_retries attempt timeout_retry_done last_error calls =
     (if attempt < max_retries then
        (case coref_attempt svc full_prompt 120 calls of
           (Inr result, calls1) \<Rightarrow> (Inr result, calls1)
         | (Inl e, calls1) \<Rightarrow>
             if timed_out e \<and> \<not> timeout_retry_done then
               (case coref_attempt svc full_prompt 300 calls1 of
                  (Inr result, calls2) \<Rightarrow> (Inr result, calls2)
                | (Inl retry_e, calls2) \<Rightarrow>
                    coref_retry_loop svc full_prompt max_retries (attempt + 1 + 1) True
                      (Some retry_e) calls2)
             else
               coref_retry_loop svc full_prompt max_retries (attempt + 1) timeout_retry_done
                 (Some e) calls1)
      else (Inl (attempt, last_error), calls))"
  by pat_completeness auto
termination
  by (relation "measure (\<lambda>(svc, full_prompt, max_retries, attempt, rest). max_retries - attempt)")
     auto

text \<open>
  \<^verbatim>\<open>d.update(other)\<close> for a dict \<open>other\<close>, pair by pair in the order of \<open>other\<close>.
\<close>

definition dict_update :: "('k, 'v) dict \<Rightarrow> ('k, 'v) dict \<Rightarrow> ('k, 'v) dict" where
  "dict_update d other = fold (\<lambda>kv. AList.update (fst kv) (snd kv)) other d"

text \<open>
  \<^verbatim>\<open>d.update(v)\<close> for a decoded JSON value: a number, a boolean or null is not iterable
  (TypeError); a string is read as a sequence of pairs, so the empty string changes
  nothing and any other string fails on its first character (ValueError); the empty list
  changes nothing. A list that is not empty is read as a sequence of key-value pairs,
  whose keys need not be strings: this case is not followed and ends the run of the model.
\<close>

fun py_dict_update :: "(string, json) dict \<Rightarrow> json \<Rightarrow> py_error + (string, json) dict" where
  "py_dict_update d (JObj other) = Inr (dict_update d other)"
| "py_dict_update d (JStr []) = Inr d"
| "py_dict_update d (JStr (c # cs)) =
     Inl (ValueError ''dictionary update sequence element #0 has length 1; 2 is required'')"
| "py_dict_update d (JArr []) = Inr d"
| "py_dict_update d (JArr (x # xs)) = Inl (Unmodelled ''dict.update with a sequence of pairs'')"
| "py_dict_update d v = Inl (TypeError ''object is not iterable'')"

text \<open>\<^verbatim>\<open>d.get(k, default)\<close>\<close>

definition dict_get :: "(string, 'v) dict \<Rightarrow> string \<Rightarrow> 'v \<Rightarrow> 'v" where
  "dict_get d k dflt = (case map_of d k of Some v \<Rightarrow> v | None \<Rightarrow> dflt)"

record chunk_file =
  fname :: string
  chunk_text :: string
  ner_data :: "(string, json) dict"

record coref_state =
  resolved_entities :: "(string, json) dict"
  aux_descriptions :: "(string, json) dict"
  coref_calls :: call_log
  coref_outputs :: "(string \<times> (string, json) dict) list"

text \<open>
  The two \<^verbatim>\<open>update\<close> statements after a successful loop. The dicts are mutated in place:
  when the second statement raises, the first has taken effect.
\<close>

definition merge_result :: "(string, json) dict \<Rightarrow> coref_state \<Rightarrow> py_error option \<times> coref_state" where
  "merge_result result st =
     (case py_dict_update (resolved_entities st) (dict_get result ''RESOLVED_ENTITIES'' (JObj [])) of
        Inl e \<Rightarrow> (Some e, st)
      | Inr resolved \<Rightarrow>
          (case py_dict_update (aux_descriptions st)
                  (dict_get result ''AUXILIARY_DESCRIPTIONS'' (JObj [])) of
             Inl e \<Rightarrow> (Some e, st\<lparr>resolved_entities := resolved\<rparr>)
           | Inr aux \<Rightarrow> (None, st\<lparr>resolved_entities := resolved, aux_descriptions := aux\<rparr>)))"

text \<open>\<^verbatim>\<open>str(n)\<close> for a natural number.\<close>

function str_nat :: "nat \<Rightarrow> string" where
  "str_nat n = (if n < 10 then [''0123456789'' ! n]
                else str_nat (n div 10) @ [''0123456789'' ! (n mod 10)])"
  by pat_completeness auto
termination
  by (relation "measure id") auto

definition str_opt_error :: "py_error option \<Rightarrow> string" where
  "str_opt_error e = (case e of None \<Rightarrow> ''None'' | Some x \<Rightarrow> error_str x)"

text \<open>
  The body of \<^verbatim>\<open>for fname in chunk_files\<close> for a name that ends in .txt. The reads of the
  chunk and of its NER file are the fields of \<open>chunk_file\<close>.
\<close>

definition process_chunk ::
  "(json \<Rightarrow> string) \<Rightarrow> service \<Rightarrow> int \<Rightarrow> string \<Rightarrow> bool \<Rightarrow> chunk_file \<Rightarrow> coref_state
     \<Rightarrow> py_error option \<times> coref_state" where
  "process_chunk dumps svc args_max_retries prompt_template verification cf st =
     (let chunk_name = py_replace (fname cf) ''.txt'' [];
          ner_entities = dict_get (ner_data cf) ''ENTITIES'' (JObj []);
          aux_current = dict_get (ner_data cf) ''PROPER_NOUN_DESCRIPTION'' (JObj []);
          full_prompt = coref_inject_prompt dumps prompt_template (resolved_entities st)
                          (aux_descriptions st) ner_entities aux_current (chunk_text cf);
          max_retries = nat (max 1 args_max_retries)
      in case coref_retry_loop svc full_prompt max_retries 0 False None (coref_calls st) of
           (Inl (attempt, last_error), calls') \<Rightarrow>
             (Some (Exception (''Ollama inference failed for '' @ chunk_name @ '' after ''
                       @ str_nat attempt @ '' attempts. Last error: '' @ str_opt_error last_error)),
              st\<lparr>coref_calls := calls'\<rparr>)
         | (Inr result, calls') \<Rightarrow>
             (case merge_result result (st\<lparr>coref_calls := calls'\<rparr>) of
                (Some e, st') \<Rightarrow> (Some e, st')
              | (None, st') \<Rightarrow>
                  (None, st'\<lparr>coref_outputs := coref_outputs st' @
                     [(chunk_name @ (if verification then ''_verify'' else []) @ ''.json'', result)]\<rparr>)))"

fun process_chunks ::
  "(json \<Rightarrow> string) \<Rightarrow> service \<Rightarrow> int \<Rightarrow> string \<Rightarrow> bool \<Rightarrow> chunk_file list \<Rightarrow> coref_state
     \<Rightarrow> py_error option \<times> coref_state" where
  "process_chunks dumps svc args_max_retries prompt_template verification [] st = (None, st)"
| "process_chunks dumps svc args_max_retries prompt_template verification (cf # cfs) st =
     (if \<not> suffix ''.txt'' (fname cf)
      then process_chunks dumps svc args_max_retries prompt_template verification cfs st
      else
        (case process_chunk dumps svc args_max_retries prompt_template verification cf st of
           (Some e, st') \<Rightarrow> (Some e, st')
         | (None, st') \<Rightarrow>
             process_chunks dumps svc args_max_retries prompt_template verification cfs st'))"

text \<open>\<^verbatim>\<open>for i in range(args.verify_passes)\<close>, each pass over all chunks again.\<close>

fun verify_passes ::
  "(json \<Rightarrow> string) \<Rightarrow> service \<Rightarrow> int \<Rightarrow> string \<Rightarrow> nat \<Rightarrow> chunk_file list \<Rightarrow> coref_state
     \<Rightarrow> py_error option \<times> coref_state" where
  "verify_passes dumps svc args_max_retries verify_prompt 0 cfs st = (None, st)"
| "verify_passes dumps svc args_max_retries verify_prompt (Suc n) cfs st =
     (case process_chunks dumps svc args_max_retries verify_prompt True cfs st of
        (Some e, st') \<Rightarrow> (Some e, st')
      | (None, st') \<Rightarrow> verify_passes dumps svc args_max_retries verify_prompt n cfs st')"

definition coref_main ::
  "(json \<Rightarrow> string) \<Rightarrow> service \<Rightarrow> int \<Rightarrow> string \<Rightarrow> string \<Rightarrow> int \<Rightarrow> chunk_file list
     \<Rightarrow> py_error option \<times> coref_state" where
  "coref_main dumps svc args_max_retries discovery_prompt verify_prompt args_verify_passes cfs =
     (case process_chunks dumps svc args_max_retries discovery_prompt False cfs
             \<lparr>resolved_entities = [], aux_descriptions = [], coref_calls = [], coref_outputs = []\<rparr> of
        (Some e, st) \<Rightarrow> (Some e, st)
      | (None, st) \<Rightarrow>
          verify_passes dumps svc args_max_retries verify_prompt (nat args_verify_passes) cfs st)"


section \<open>linkkg-no-str-prompt/resolve_coref.py: the final resolver\<close>

text \<open>The unresolved entries (null) are dropped from RESOLVED_ENTITIES before the loop.\<close>

definition prune_unresolved :: "(string, json) dict \<Rightarrow> (string, json) dict" where
  "prune_unresolved resolved = filter (\<lambda>kv. snd kv \<noteq> JNull) resolved"

definition resolve_inject_prompt ::
  "(json \<Rightarrow> string) \<Rightarrow> string \<Rightarrow> (string, json) dict \<Rightarrow> json \<Rightarrow> string \<Rightarrow> string" where
  "resolve_inject_prompt dumps template resolved aux text =
     py_strip template @ [CHR 0x0A, CHR 0x0A] @
     dumps (JObj [(''RESOLVED_ENTITIES'', JObj resolved),
                  (''AUXILIARY_DESCRIPTIONS'', aux),
                  (''TEXT_CHUNK'', JStr text)])"

text \<open>
  The body of one iteration of \<^verbatim>\<open>for retry in range(args.num_retries)\<close>, up to the test
  for the last iteration: the call with the base timeout and, when its failure is
  classified as a timeout, the call with the extended timeout. \<open>Inr\<close> is a \<^verbatim>\<open>break\<close>
  with the new \<^verbatim>\<open>input_text\<close>; \<open>Inl e\<close> is the exception of the first call, which the
  bare \<^verbatim>\<open>raise\<close> of the last iteration raises again.
\<close>

definition resolve_pass :: "service \<Rightarrow> string \<Rightarrow> call_log \<Rightarrow> (py_error + string) \<times> call_log" where
  "resolve_pass svc prompt calls =
     (case run_ollama_inference svc prompt 120 calls of
        (Inr text, calls1) \<Rightarrow> (Inr text, calls1)
      | (Inl e, calls1) \<Rightarrow>
          if timed_out e then
            (case run_ollama_inference svc prompt 300 calls1 of
               (Inr text, calls2) \<Rightarrow> (Inr text, calls2)
             | (Inl e2, calls2) \<Rightarrow> (Inl e, calls2))
          else (Inl e, calls1))"

function resolve_loop ::
  "(json \<Rightarrow> string) \<Rightarrow> service \<Rightarrow> string \<Rightarrow> (string, json) dict \<Rightarrow> json \<Rightarrow> int \<Rightarrow> int
     \<Rightarrow> string \<Rightarrow> call_log \<Rightarrow> (py_error + string) \<times> call_log" where
  "resolve_loop dumps svc template resolved aux num_retries retry input_text calls =
     (if retry < num_retries then
        (case resolve_pass svc (resolve_inject_prompt dumps template resolved aux input_text) calls of
           (Inr text, calls') \<Rightarrow> (Inr text, calls')
         | (Inl e, calls') \<Rightarrow>
             if retry = num_retries - 1 then (Inl e, calls')
             else resolve_loop dumps svc template resolved aux num_retries (retry + 1)
                    input_text calls')
      else (Inr input_text, calls))"
  by pat_completeness auto
termination
  by (relation "measure (\<lambda>(dumps, svc, template, resolved, aux, num_retries, retry, rest).
                   nat (num_retries - retry))")
     auto

text \<open>
  \<^verbatim>\<open>for fname in chunk_files\<close>, over the sorted names that end in .txt, each with the text
  of its file; \<^verbatim>\<open>resolved_text = input_text\<close> is written to the chunk's output file.
\<close>

fun resolve_chunks ::
  "(json \<Rightarrow> string) \<Rightarrow> service \<Rightarrow> string \<Rightarrow> (string, json) dict \<Rightarrow> json \<Rightarrow> int
     \<Rightarrow> (string \<times> string) list \<Rightarrow> (string \<times> string) list \<Rightarrow> call_log
     \<Rightarrow> py_error option \<times> (string \<times> string) list \<times> call_log" where
  "resolve_chunks dumps svc template resolved aux num_retries [] written calls =
     (None, written, calls)"
| "resolve_chunks dumps svc template resolved aux num_retries ((name, text) # rest)
       written calls =
     (case resolve_loop dumps svc template resolved aux num_retries 0 text calls of
        (Inl e, calls') \<Rightarrow> (Some e, written, calls')
      | (Inr resolved_text, calls') \<Rightarrow>
          resolve_chunks dumps svc template resolved aux num_retries rest
            (written @ [(py_replace name ''.txt'' [] @ ''_resolved.txt'', resolved_text)]) calls')"

definition resolve_main ::
  "(json \<Rightarrow> string) \<Rightarrow> service \<Rightarrow> string \<Rightarrow> (string, json) dict \<Rightarrow> int
     \<Rightarrow> (string \<times> string) list \<Rightarrow> py_error option \<times> (string \<times> string) list \<times> call_log" where
  "resolve_main dumps svc template memory num_retries chunk_files =
     (case dict_get memory ''RESOLVED_ENTITIES'' (JObj []) of
        JObj resolved \<Rightarrow>
          resolve_chunks dumps svc template (prune_unresolved resolved)
            (dict_get memory ''AUXILIARY_DESCRIPTIONS'' (JObj [])) num_retries
            (filter (\<lambda>f. suffix ''.txt'' (fst f)) chunk_files) [] []
      | _ \<Rightarrow> (Some (Unmodelled ''RESOLVED_ENTITIES is not an object''), [], []))"

subsection \<open>Chained passes, as the specification words them\<close>

text \<open>
  Each successive pass calls the completion service on the text returned by the previous
  pass; the result of the last configured pass is the resolved text. A pass that fails
  ends the chain with its error.
\<close>

fun chained_passes ::
  "(json \<Rightarrow> string) \<Rightarrow> service \<Rightarrow> string \<Rightarrow> (string, json) dict \<Rightarrow> json \<Rightarrow> nat
     \<Rightarrow> string \<Rightarrow> call_log \<Rightarrow> (py_error + string) \<times> call_log" where
  "chained_passes dumps svc template resolved aux 0 input_text calls = (Inr input_text, calls)"
| "chained_passes dumps svc template resolved aux (Suc n) input_text calls =
     (case resolve_pass svc (resolve_inject_prompt dumps template resolved aux input_text) calls of
        (Inr text, calls') \<Rightarrow> chained_passes dumps svc template resolved aux n text calls'
      | (Inl e, calls') \<Rightarrow> (Inl e, calls'))"

text \<open>For the examples: a rendering that shows the text of the chunk only.\<close>

definition demo_dumps :: "json \<Rightarrow> string" where
  "demo_dumps payload =
     (case payload of
        JObj kvs \<Rightarrow> (case map_of kvs ''TEXT_CHUNK'' of Some (JStr t) \<Rightarrow> t | _ \<Rightarrow> [])
      | _ \<Rightarrow> [])"

text \<open>For the examples: a service that answers its first call with one text and every
  later call with another, and one whose every call times out.\<close>

definition rewriting_service :: service where
  "rewriting_service n prompt timeout =
     (if n = 0 then PostBody (Some ''first rewrite'') else PostBody (Some ''second rewrite''))"



text \<open>For the examples: a memory and the parsed response of one chunk.\<close>

definition memory_before :: coref_state where
  "memory_before =
     \<lparr>resolved_entities = [(''he'', JStr ''Robert''), (''she'', JStr ''Al'')],
      aux_descriptions = [], coref_calls = [], coref_outputs = []\<rparr>"

definition chunk_response :: "(string, json) dict" where
  "chunk_response =
     [(''RESOLVED_ENTITIES'', JObj [(''he'', JStr ''Bob''), (''it'', JNull)]),
      (''AUXILIARY_DESCRIPTIONS'', JObj [(''Bob'', JStr ''a man'')])]"


section \<open>erevaluation/evaluation2.py: the record parser\<close>

definition TUPLE_DELIM :: string where
  "TUPLE_DELIM = ''{tuple_delimiter}''"

definition RECORD_DELIM :: string where
  "RECORD_DELIM = ''{record_delimiter}''"

definition COMPLETION_DELIM :: string where
  "COMPLETION_DELIM = ''{completion_delimiter}''"

definition normalize_text :: "string \<Rightarrow> string" where
  "normalize_text s = py_join '' '' (split_ws [] (py_lower (py_strip s)))"

text \<open>A text between double quotes.\<close>

definition quoted :: "string \<Rightarrow> string" where
  "quoted s = [CHR 0x22] @ s @ [CHR 0x22]"

text \<open>
  \<^verbatim>\<open>re.match(r'^\(\s*"(entity|relationship)"\s*(.*)\)\s*$', rec)\<close>, with its two groups.
  After the keyword, \<^verbatim>\<open>\s*\<close> takes all the white space; \<^verbatim>\<open>.\<close> does not match a line
  feed; the closing parenthesis is the last character that is not white space.
\<close>

definition match_keyword :: "string \<Rightarrow> (string \<times> string) option" where
  "match_keyword s =
     (if prefix (quoted ''entity'') s then Some (''entity'', drop (length (quoted ''entity'')) s)
      else if prefix (quoted ''relationship'') s
      then Some (''relationship'', drop (length (quoted ''relationship'')) s)
      else None)"

definition match_record :: "string \<Rightarrow> (string \<times> string) option" where
  "match_record rec =
     (case rec of
        [] \<Rightarrow> None
      | c # r \<Rightarrow>
          if c \<noteq> CHR ''('' then None
          else
            (case match_keyword (dropWhile is_space r) of
               None \<Rightarrow> None
             | Some (rec_type, after) \<Rightarrow>
                 (case dropWhile is_space (rev (dropWhile is_space after)) of
                    [] \<Rightarrow> None
                  | y # ys \<Rightarrow>
                      if y = CHR '')'' \<and> CHR 0x0A \<notin> set ys
                      then Some (rec_type, rev ys)
                      else None)))"

text \<open>What the body of the loop appends for a record that is not a stop record.\<close>

definition record_items :: "string list \<Rightarrow> string \<Rightarrow> entity list \<times> relation list" where
  "record_items allowed_lower rec =
     (case match_record rec of
        None \<Rightarrow> ([], [])
      | Some (rec_type, rest0) \<Rightarrow>
          (let rest = (if prefix TUPLE_DELIM rest0 then drop (length TUPLE_DELIM) rest0 else rest0);
               fields = py_split rest TUPLE_DELIM
           in if rec_type = ''entity'' \<and> length fields \<ge> 2 then
                (let name = normalize_text (fields ! 0);
                     etype = py_lower (normalize_text (fields ! 1))
                 in if etype \<in> set allowed_lower then ([(name, etype)], []) else ([], []))
              else if rec_type = ''relationship'' \<and> length fields \<ge> 2 then
                ([], [(normalize_text (fields ! 0), normalize_text (fields ! 1))])
              else ([], [])))"

text \<open>\<^verbatim>\<open>if not rec or COMPLETION_DELIM in rec: break\<close>, on the stripped record.\<close>

definition stop_record :: "string \<Rightarrow> bool" where
  "stop_record rec \<longleftrightarrow> rec = [] \<or> str_contains rec COMPLETION_DELIM"

fun parse_records ::
  "string list \<Rightarrow> string list \<Rightarrow> entity list \<Rightarrow> relation list \<Rightarrow> entity list \<times> relation list" where
  "parse_records allowed_lower [] entities relations = (entities, relations)"
| "parse_records allowed_lower (part # parts) entities relations =
     (let rec = py_strip part
      in if stop_record rec then (entities, relations)
         else parse_records allowed_lower parts
                (entities @ fst (record_items allowed_lower rec))
                (relations @ snd (record_items allowed_lower rec)))"

text \<open>The first argument is None when the cell is not a string.\<close>

definition parse_delimited_output :: "string option \<Rightarrow> string list \<Rightarrow> entity list \<times> relation list" where
  "parse_delimited_output raw allowed_types =
     (case raw of
        None \<Rightarrow> ([], [])
      | Some text \<Rightarrow>
          parse_records (map (\<lambda>t. py_strip (py_lower t)) allowed_types)
            (py_split text RECORD_DELIM) [] [])"

text \<open>For the examples: two well-formed entity records.\<close>

definition record_bob :: string where
  "record_bob = ''('' @ quoted ''entity'' @ TUPLE_DELIM @ ''Bob'' @ TUPLE_DELIM @ ''PERSON'' @ '')''"

definition record_al :: string where
  "record_al = ''('' @ quoted ''entity'' @ TUPLE_DELIM @ ''Al'' @ TUPLE_DELIM @ ''person'' @ '')''"


section \<open>linkkg-no-str-prompt/ner.py: the extractor's JSON handling\<close>

text \<open>
  \<^verbatim>\<open>re.sub(r'"([^"\n\r]+?)\'\s*:', r'"\1":', raw_response)\<close>. \<open>stray_key\<close> matches the
  pattern after its opening quote: the group is the shortest run of one or more
  characters other than a double quote, a line feed and a carriage return that is
  followed by an apostrophe, white space and a colon. It returns the group and the text
  after the colon.
\<close>

fun stray_key :: "string \<Rightarrow> string \<Rightarrow> (string \<times> string) option" where
  "stray_key grp [] = None"
| "stray_key grp (c # cs) =
     (if grp \<noteq> [] \<and> c = CHR 0x27 \<and> prefix '':'' (dropWhile is_space cs)
      then Some (rev grp, drop 1 (dropWhile is_space cs))
      else if c = CHR 0x22 \<or> c = CHR 0x0A \<or> c = CHR 0x0D then None
      else stray_key (c # grp) cs)"

lemma stray_key_shorter: "stray_key grp s = Some (g, rest) \<Longrightarrow> length rest < length s"
proof (induction grp s rule: stray_key.induct)
  case (1 grp)
  then show ?case by simp
next
  case (2 grp c cs)
  have "length (drop 1 (dropWhile is_space cs)) \<le> length cs"
    using length_dropWhile_le' [of is_space cs] by simp
  with 2 show ?case by (auto split: if_splits)
qed

text \<open>The matches are replaced from left to right, without overlap.\<close>

function repair_keys :: "string \<Rightarrow> string" where
  "repair_keys [] = []"
| "repair_keys (c # cs) =
     (if c = CHR 0x22 then
        (case stray_key [] cs of
           Some (grp, rest) \<Rightarrow> [CHR 0x22] @ grp @ [CHR 0x22] @ '':'' @ repair_keys rest
         | None \<Rightarrow> c # repair_keys cs)
      else c # repair_keys cs)"
  by pat_completeness auto
termination
  by (relation "measure length") (auto dest: stray_key_shorter)

text \<open>
  \<^verbatim>\<open>key in v and v[key] is None\<close> for \<^verbatim>\<open>v = result["ENTITIES"]\<close>, then \<^verbatim>\<open>v[key] = []\<close>.
  On a list or a string \<^verbatim>\<open>in\<close> is a membership or substring test and the subscript
  raises TypeError; on a number, a boolean or null \<^verbatim>\<open>in\<close> raises TypeError.
\<close>

definition null_to_empty_list :: "string \<Rightarrow> json \<Rightarrow> py_error + json" where
  "null_to_empty_list key v =
     (case v of
        JObj kvs \<Rightarrow>
          if map_of kvs key = Some JNull then Inr (JObj (AList.update key (JArr []) kvs))
          else Inr v
      | JArr items \<Rightarrow>
          if JStr key \<in> set items then Inl (TypeError ''list indices must be integers or slices, not str'')
          else Inr v
      | JStr s \<Rightarrow>
          if str_contains s key then Inl (TypeError ''string indices must be integers, not str'')
          else Inr v
      | _ \<Rightarrow> Inl (TypeError ''argument is not iterable''))"

definition normalize_result :: "(string, json) dict \<Rightarrow> py_error + (string, json) dict" where
  "normalize_result result =
     (case (case map_of result ''ENTITIES'' of
              None \<Rightarrow> Inr result
            | Some v \<Rightarrow>
                (case null_to_empty_list ''PROPER_NOUN'' v of
                   Inl e \<Rightarrow> Inl e
                 | Inr v1 \<Rightarrow>
                     (case null_to_empty_list ''NOUN_PHRASE'' v1 of
                        Inl e \<Rightarrow> Inl e
                      | Inr v2 \<Rightarrow> Inr (AList.update ''ENTITIES'' v2 result)))) of
        Inl e \<Rightarrow> Inl e
      | Inr result1 \<Rightarrow>
          if map_of result1 ''PROPER_NOUN_DESCRIPTION'' = Some JNull
          then Inr (AList.update ''PROPER_NOUN_DESCRIPTION'' (JObj []) result1)
          else Inr result1)"

text \<open>
  The function returns its result, or the exception it raises, together with the lines it
  prints. On a first parse that succeeds nothing is printed; the handler of
  JSONDecodeError prints the debug preview, and the repair path prints its own line
  before it returns.
\<close>

definition ner_extract_json_from_ollama :: "string \<Rightarrow> (py_error + json) \<times> string list" where
  "ner_extract_json_from_ollama raw_response =
     (if \<not> prefix ''{'' (py_strip raw_response)
      then (Inl (ValueError (''Output does not start with '' @ [CHR 0x27] @ ''{'' @ [CHR 0x27]
                               @ ''. Unexpected format:'' @ [CHR 0x0A] @ take 300 raw_response)), [])
      else
        (case json_loads raw_response of
           Inr (JObj result) \<Rightarrow>
             if result = [] then (Inl (ValueError ''Parsed JSON is empty.''), [])
             else (case normalize_result result of
                     Inl e \<Rightarrow> (Inl e, [])
                   | Inr result' \<Rightarrow> (Inr (JObj result'), []))
         | Inr other \<Rightarrow> (Inl (Unmodelled ''a text that starts with a brace decodes to an object''), [])
         | Inl (JSONDecodeError m) \<Rightarrow>
             (let preview = [[CHR 0x0A] @ ''===== RAW LLM OUTPUT (for debug) ====='' @ [CHR 0x0A],
                             take 1000 raw_response,
                             [CHR 0x0A] @ ''======================================'' @ [CHR 0x0A]];
                  repaired = repair_keys raw_response
              in case json_loads repaired of
                   Inr result \<Rightarrow>
                     (Inr result,
                      preview @ [''Fixed JSON format by removing stray apostrophes in keys.''])
                 | Inl (JSONDecodeError m2) \<Rightarrow>
                     (Inl (ValueError (''Invalid JSON format. '' @ m)), preview)
                 | Inl e2 \<Rightarrow> (Inl e2, preview))
         | Inl e \<Rightarrow> (Inl e, [])))"

text \<open>
  The input of the specification's scenario, \<^verbatim>\<open>{"a'": 1}\<close>, and the input with a key
  that an apostrophe closes instead of a double quote, \<^verbatim>\<open>{"a': 1}\<close>.
\<close>

definition scenario_input :: string where
  "scenario_input = ''{'' @ quoted (''a'' @ [CHR 0x27]) @ '': 1}''"

definition stray_quote_input :: string where
  "stray_quote_input = ''{'' @ [CHR 0x22] @ ''a'' @ [CHR 0x27] @ '': 1}''"


text \<open>The text \<^verbatim>\<open>{"a": 1}\<close>.\<close>

definition repaired_input :: string where
  "repaired_input = ''{'' @ quoted ''a'' @ '': 1}''"


text \<open>The prompt that \<open>process_chunk\<close> builds for a chunk from the memory of a state.\<close>

definition chunk_prompt :: "(json \<Rightarrow> string) \<Rightarrow> string \<Rightarrow> chunk_file \<Rightarrow> coref_state \<Rightarrow> string" where
  "chunk_prompt dumps prompt_template cf st =
     coref_inject_prompt dumps prompt_template (resolved_entities st) (aux_descriptions st)
       (dict_get (ner_data cf) ''ENTITIES'' (JObj []))
       (dict_get (ner_data cf) ''PROPER_NOUN_DESCRIPTION'' (JObj [])) (chunk_text cf)"

text \<open>
  For the examples: a service that answers every call with the text
  \<^verbatim>\<open>{"RESOLVED_ENTITIES": {"he": "Bob", "it": null}, "AUXILIARY_DESCRIPTIONS": {"Bob": "a man"}}\<close>,
  and a chunk.
\<close>

definition response_text :: string where
  "response_text =
     ''{'' @ quoted ''RESOLVED_ENTITIES'' @ '': {'' @ quoted ''he'' @ '': '' @ quoted ''Bob''
       @ '', '' @ quoted ''it'' @ '': null}, '' @ quoted ''AUXILIARY_DESCRIPTIONS'' @ '': {''
       @ quoted ''Bob'' @ '': '' @ quoted ''a man'' @ ''}}''"

definition json_service :: service where
  "json_service n prompt timeout = PostBody (Some response_text)"

definition demo_chunk :: chunk_file where
  "demo_chunk = \<lparr>fname = ''chunk_000.txt'', chunk_text = ''He left.'', ner_data = []\<rparr>"


section \<open>Verified properties\<close>

subsection \<open>The scorer\<close>

lemma find_match_Some:
  "find_match i gs used p = Some j \<Longrightarrow> i \<le> j \<and> j < i + length gs \<and> \<not> used ! j"
  by (induction i gs used p rule: find_match.induct) (auto split: if_splits)

lemma count_list_mark_used:
  "j < length used \<Longrightarrow> \<not> used ! j \<Longrightarrow>
     Suc (count_list (used[j := True]) False) = count_list used False"
proof (induction used arbitrary: j)
  case Nil
  then show ?case by simp
next
  case (Cons u us)
  then show ?case by (cases j) auto
qed

lemma score_pred_counts:
  assumes "length (gold_used st) = length gold"
  shows "length (gold_used (score_pred gold p st)) = length gold"
    and "tp (overall (score_pred gold p st)) + fp (overall (score_pred gold p st))
           = Suc (tp (overall st) + fp (overall st))"
    and "tp (overall (score_pred gold p st)) + count_list (gold_used (score_pred gold p st)) False
           = tp (overall st) + count_list (gold_used st) False"
    and "fn (overall (score_pred gold p st)) = fn (overall st)"
proof -
  show "length (gold_used (score_pred gold p st)) = length gold"
    using assms by (simp add: score_pred_def split: option.splits)
  show "tp (overall (score_pred gold p st)) + fp (overall (score_pred gold p st))
           = Suc (tp (overall st) + fp (overall st))"
    by (simp add: score_pred_def split: option.splits)
  show "fn (overall (score_pred gold p st)) = fn (overall st)"
    by (simp add: score_pred_def split: option.splits)
  show "tp (overall (score_pred gold p st)) + count_list (gold_used (score_pred gold p st)) False
           = tp (overall st) + count_list (gold_used st) False"
  proof (cases "find_match 0 gold (gold_used st) p")
    case None
    then show ?thesis by (simp add: score_pred_def)
  next
    case (Some j)
    from find_match_Some [OF Some] assms
    have "j < length (gold_used st)" "\<not> gold_used st ! j" by simp_all
    from count_list_mark_used [OF this] Some show ?thesis
      by (simp add: score_pred_def)
  qed
qed

lemma score_preds_counts:
  "length (gold_used st) = length gold \<Longrightarrow>
     length (gold_used (score_preds gold ps st)) = length gold \<and>
     tp (overall (score_preds gold ps st)) + fp (overall (score_preds gold ps st))
       = tp (overall st) + fp (overall st) + length ps \<and>
     tp (overall (score_preds gold ps st)) + count_list (gold_used (score_preds gold ps st)) False
       = tp (overall st) + count_list (gold_used st) False \<and>
     fn (overall (score_preds gold ps st)) = fn (overall st)"
proof (induction ps arbitrary: st)
  case Nil
  then show ?case by simp
next
  case (Cons p ps)
  note pc = score_pred_counts [OF Cons.prems, of p]
  from Cons.IH [OF pc(1)] pc(2,3,4) show ?case by simp
qed

lemma score_unused_counts:
  "tp (overall (score_unused zs st)) = tp (overall st) \<and>
   fp (overall (score_unused zs st)) = fp (overall st) \<and>
   fn (overall (score_unused zs st)) = fn (overall st) + count_list (map fst zs) False"
  by (induction zs st rule: score_unused.induct) auto

lemma count_list_replicate_False: "count_list (replicate n False) False = n"
  by (induction n) auto

text \<open>
  C5. For every list of gold entities and every list of predicted entities, the overall
  counts returned by \<^const>\<open>score_entities\<close> satisfy tp + fp = length of the predicted
  list and tp + fn = length of the gold list.
\<close>

theorem score_entities_counts_cover_inputs:
  "tp (fst (score_entities gold pred)) + fp (fst (score_entities gold pred)) = length pred \<and>
   tp (fst (score_entities gold pred)) + fn (fst (score_entities gold pred)) = length gold"
proof -
  define st0 where "st0 = \<lparr>gold_used = replicate (length gold) False, overall = zero_counts,
     per_type_counts = map (\<lambda>etype. (etype, zero_counts)) ALL_ENTITY_TYPES\<rparr>"
  define st1 where "st1 = score_preds gold pred st0"
  define st2 where "st2 = score_unused (zip (gold_used st1) gold) st1"
  have res: "fst (score_entities gold pred) = overall st2"
    by (simp add: score_entities_def Let_def st0_def st1_def st2_def)
  have len0: "length (gold_used st0) = length gold" by (simp add: st0_def)
  from score_preds_counts [OF len0, of pred]
  have len1: "length (gold_used st1) = length gold"
    and tpfp: "tp (overall st1) + fp (overall st1) = length pred"
    and tpun: "tp (overall st1) + count_list (gold_used st1) False = length gold"
    and fn1: "fn (overall st1) = 0"
    by (simp_all add: st1_def st0_def zero_counts_def count_list_replicate_False)
  have fsts: "map fst (zip (gold_used st1) gold) = gold_used st1"
    using len1 by simp
  from score_unused_counts [of "zip (gold_used st1) gold" st1] fsts
  have "tp (overall st2) = tp (overall st1)" "fp (overall st2) = fp (overall st1)"
    "fn (overall st2) = fn (overall st1) + count_list (gold_used st1) False"
    by (simp_all add: st2_def)
  with tpfp tpun fn1 res show ?thesis by simp
qed

theorem score_entities_counts_cover_inputs_witness:
  "tp (fst (score_entities [(''al capone'', ''person'')]
              [(''al capone'', ''person''), (''al capone'', ''person'')])) = 1 \<and>
   fp (fst (score_entities [(''al capone'', ''person'')]
              [(''al capone'', ''person''), (''al capone'', ''person'')])) = 1 \<and>
   fn (fst (score_entities [(''al capone'', ''person'')]
              [(''al capone'', ''person''), (''al capone'', ''person'')])) = 0"
  using score_entities_counts_cover_inputs
    [of "[(''al capone'', ''person'')]" "[(''al capone'', ''person''), (''al capone'', ''person'')]"]
  by (simp add: score_entities_def score_pred_def zero_counts_def)

lemma ensure_type_present: "map_of (ensure_type t d) t \<noteq> None"
  by (simp add: ensure_type_def dict_contains_def AList.update_conv')

lemma ensure_type_distinct: "distinct (map fst d) \<Longrightarrow> distinct (map fst (ensure_type t d))"
  by (simp add: ensure_type_def AList.distinct_update)

lemma sum_update_absent:
  "map_of d t = None \<Longrightarrow>
     sum_list (map (\<lambda>kv. f (snd kv)) (AList.update t c d)) = sum_list (map (\<lambda>kv. f (snd kv)) d) + (f c :: nat)"
  by (induction d) (auto split: if_splits)

lemma ensure_type_sums:
  "sum_list (map (\<lambda>kv. tp (snd kv)) (ensure_type t d)) = sum_list (map (\<lambda>kv. tp (snd kv)) d)"
  "sum_list (map (\<lambda>kv. fp (snd kv)) (ensure_type t d)) = sum_list (map (\<lambda>kv. fp (snd kv)) d)"
  "sum_list (map (\<lambda>kv. fn (snd kv)) (ensure_type t d)) = sum_list (map (\<lambda>kv. fn (snd kv)) d)"
  by (simp_all add: ensure_type_def dict_contains_def sum_update_absent zero_counts_def)

lemma sum_map_entry:
  "map_of d t \<noteq> None \<Longrightarrow> (\<And>c. f (g c) = f c + (k::nat)) \<Longrightarrow>
     sum_list (map (\<lambda>kv. f (snd kv)) (AList.map_entry t g d)) = sum_list (map (\<lambda>kv. f (snd kv)) d) + k"
  by (induction d) (auto split: if_splits)

lemma add_tp_sums:
  "sum_list (map (\<lambda>kv. tp (snd kv)) (add_tp t d)) = Suc (sum_list (map (\<lambda>kv. tp (snd kv)) d))"
  "sum_list (map (\<lambda>kv. fp (snd kv)) (add_tp t d)) = sum_list (map (\<lambda>kv. fp (snd kv)) d)"
  "sum_list (map (\<lambda>kv. fn (snd kv)) (add_tp t d)) = sum_list (map (\<lambda>kv. fn (snd kv)) d)"
  using sum_map_entry [OF ensure_type_present, of tp "\<lambda>c. c\<lparr>tp := tp c + 1\<rparr>" 1 t d]
    sum_map_entry [OF ensure_type_present, of fp "\<lambda>c. c\<lparr>tp := tp c + 1\<rparr>" 0 t d]
    sum_map_entry [OF ensure_type_present, of fn "\<lambda>c. c\<lparr>tp := tp c + 1\<rparr>" 0 t d]
  by (simp_all add: add_tp_def ensure_type_sums)

lemma add_fp_sums:
  "sum_list (map (\<lambda>kv. tp (snd kv)) (add_fp t d)) = sum_list (map (\<lambda>kv. tp (snd kv)) d)"
  "sum_list (map (\<lambda>kv. fp (snd kv)) (add_fp t d)) = Suc (sum_list (map (\<lambda>kv. fp (snd kv)) d))"
  "sum_list (map (\<lambda>kv. fn (snd kv)) (add_fp t d)) = sum_list (map (\<lambda>kv. fn (snd kv)) d)"
  using sum_map_entry [OF ensure_type_present, of tp "\<lambda>c. c\<lparr>fp := fp c + 1\<rparr>" 0 t d]
    sum_map_entry [OF ensure_type_present, of fp "\<lambda>c. c\<lparr>fp := fp c + 1\<rparr>" 1 t d]
    sum_map_entry [OF ensure_type_present, of fn "\<lambda>c. c\<lparr>fp := fp c + 1\<rparr>" 0 t d]
  by (simp_all add: add_fp_def ensure_type_sums)

lemma add_fn_sums:
  "sum_list (map (\<lambda>kv. tp (snd kv)) (add_fn t d)) = sum_list (map (\<lambda>kv. tp (snd kv)) d)"
  "sum_list (map (\<lambda>kv. fp (snd kv)) (add_fn t d)) = sum_list (map (\<lambda>kv. fp (snd kv)) d)"
  "sum_list (map (\<lambda>kv. fn (snd kv)) (add_fn t d)) = Suc (sum_list (map (\<lambda>kv. fn (snd kv)) d))"
  using sum_map_entry [OF ensure_type_present, of tp "\<lambda>c. c\<lparr>fn := fn c + 1\<rparr>" 0 t d]
    sum_map_entry [OF ensure_type_present, of fp "\<lambda>c. c\<lparr>fn := fn c + 1\<rparr>" 0 t d]
    sum_map_entry [OF ensure_type_present, of fn "\<lambda>c. c\<lparr>fn := fn c + 1\<rparr>" 1 t d]
  by (simp_all add: add_fn_def ensure_type_sums)

lemma add_distinct:
  "distinct (map fst d) \<Longrightarrow> distinct (map fst (add_tp t d))"
  "distinct (map fst d) \<Longrightarrow> distinct (map fst (add_fp t d))"
  "distinct (map fst d) \<Longrightarrow> distinct (map fst (add_fn t d))"
  by (simp_all add: add_tp_def add_fp_def add_fn_def AList.distinct_map_entry ensure_type_distinct)

lemma score_pred_partitioned: "partitioned st \<Longrightarrow> partitioned (score_pred gold p st)"
  by (simp add: partitioned_def score_pred_def add_tp_sums add_fp_sums add_distinct
      split: option.splits)

lemma score_preds_partitioned: "partitioned st \<Longrightarrow> partitioned (score_preds gold ps st)"
  by (induction ps arbitrary: st) (simp_all add: score_pred_partitioned)

lemma score_unused_partitioned: "partitioned st \<Longrightarrow> partitioned (score_unused zs st)"
proof (induction zs st rule: score_unused.induct)
  case (1 st)
  then show ?case by simp
next
  case (2 used_flag g rest st)
  have "partitioned (st\<lparr>overall := (overall st)\<lparr>fn := fn (overall st) + 1\<rparr>,
                per_type_counts := add_fn (snd g) (per_type_counts st)\<rparr>)"
    using "2.prems" by (simp add: partitioned_def add_fn_sums add_distinct)
  with 2 show ?case by simp
qed

text \<open>
  C10. In every result of \<^const>\<open>score_entities\<close> the per-type counts partition the
  overall counts: the per-type dict has one bucket per type, and the sum over all types of
  the per-type tp equals the overall tp; likewise for fp and fn.
\<close>

theorem per_type_counts_partition_overall:
  "distinct (dict_keys (snd (score_entities gold pred))) \<and>
   sum_list (map tp (dict_values (snd (score_entities gold pred)))) = tp (fst (score_entities gold pred)) \<and>
   sum_list (map fp (dict_values (snd (score_entities gold pred)))) = fp (fst (score_entities gold pred)) \<and>
   sum_list (map fn (dict_values (snd (score_entities gold pred)))) = fn (fst (score_entities gold pred))"
proof -
  define st0 where "st0 = \<lparr>gold_used = replicate (length gold) False, overall = zero_counts,
     per_type_counts = map (\<lambda>etype. (etype, zero_counts)) ALL_ENTITY_TYPES\<rparr>"
  define st2 where "st2 = score_unused (zip (gold_used (score_preds gold pred st0)) gold)
     (score_preds gold pred st0)"
  have res: "score_entities gold pred = (overall st2, per_type_counts st2)"
    by (simp add: score_entities_def Let_def st0_def st2_def)
  have "partitioned st0"
    by (simp add: partitioned_def st0_def ALL_ENTITY_TYPES_def zero_counts_def)
  then have "partitioned st2"
    unfolding st2_def by (intro score_unused_partitioned score_preds_partitioned)
  then show ?thesis
    by (simp add: res partitioned_def dict_keys_def dict_values_def comp_def)
qed

theorem per_type_counts_partition_overall_witness:
  "snd (score_entities [(''a'', ''person''), (''b'', ''ship'')] [(''a'', ''person''), (''c'', ''ship'')])
     = [(''person'', \<lparr>tp = 1, fp = 0, fn = 0\<rparr>),
        (''means_of_transportation'', zero_counts), (''means_of_communication'', zero_counts),
        (''routes'', zero_counts), (''location'', zero_counts), (''smuggled_items'', zero_counts),
        (''organization'', zero_counts), (''ship'', \<lparr>tp = 0, fp = 1, fn = 1\<rparr>)] \<and>
   fst (score_entities [(''a'', ''person''), (''b'', ''ship'')] [(''a'', ''person''), (''c'', ''ship'')])
     = \<lparr>tp = 1, fp = 1, fn = 1\<rparr>"
  using per_type_counts_partition_overall
    [of "[(''a'', ''person''), (''b'', ''ship'')]" "[(''a'', ''person''), (''c'', ''ship'')]"]
  by (simp add: score_entities_def score_pred_def zero_counts_def ALL_ENTITY_TYPES_def
      add_tp_def add_fp_def add_fn_def ensure_type_def dict_contains_def)

text \<open>
  C8. \<^const>\<open>compute_prf1\<close> never raises on non-negative integer inputs: it returns
  precision tp/(tp+fp) when tp+fp > 0 and 0 otherwise, recall tp/(tp+fn) when tp+fn > 0 and
  0 otherwise, f1 = 2PR/(P+R) when P+R > 0 and 0 otherwise; in particular
  compute_prf1(0,0,0) = (0,0,0) and compute_prf1(tp,0,0) = (1,1,1) for every tp > 0.
\<close>

theorem compute_prf1_total:
  fixes tp fp fn :: int
  assumes "0 \<le> tp" "0 \<le> fp" "0 \<le> fn"
  shows "compute_prf1 tp fp fn =
     (let precision = (if tp + fp > 0 then of_int tp / of_int (tp + fp) else 0);
          recall = (if tp + fn > 0 then of_int tp / of_int (tp + fn) else 0);
          f1 = (if precision + recall > 0 then 2 * precision * recall / (precision + recall) else 0)
      in Inr (precision, recall, f1)) \<and>
     compute_prf1 0 0 0 = Inr (0, 0, 0) \<and>
     (0 < tp \<longrightarrow> compute_prf1 tp 0 0 = Inr (1, 1, 1))"
  by (simp add: compute_prf1_def py_truediv_def Let_def)

theorem compute_prf1_total_witness:
  "(0::int) \<le> 3 \<and> (0::int) \<le> 1 \<and> (0::int) \<le> 2 \<and>
   compute_prf1 3 1 2 = Inr (3 / 4, 3 / 5, 2 / 3) \<and>
   compute_prf1 3 0 0 = Inr (1, 1, 1)"
  using compute_prf1_total [of 3 1 2] compute_prf1_total [of 3 0 0]
  by (simp add: Let_def)

text \<open>
  C1. The claim: for every list of gold relations and every list of predicted relations,
  the relation-scoring loop of main produces the counts of the greedy policy that matches
  each prediction with the first not-yet-used gold item equal to it. The loop looks the
  prediction up with \<^verbatim>\<open>gold_rel.index(pr)\<close>, which always answers with the first
  occurrence, used or not: with a gold relation listed twice and predicted twice the loop
  counts tp = 1, fp = 1, fn = 1 where the greedy policy, and \<^const>\<open>score_entities\<close> on
  the same tuples, count tp = 2, fp = 0, fn = 0.
\<close>

theorem score_relations_duplicate_gold:
  "score_relations [(''a'', ''b''), (''a'', ''b'')] [(''a'', ''b''), (''a'', ''b'')]
     = \<lparr>tp = 1, fp = 1, fn = 1\<rparr> \<and>
   greedy_counts [(''a'', ''b''), (''a'', ''b'')] [(''a'', ''b''), (''a'', ''b'')]
     = \<lparr>tp = 2, fp = 0, fn = 0\<rparr> \<and>
   fst (score_entities [(''a'', ''b''), (''a'', ''b'')] [(''a'', ''b''), (''a'', ''b'')])
     = \<lparr>tp = 2, fp = 0, fn = 0\<rparr>"
  by (simp add: score_relations_def score_rel_def greedy_counts_def zero_counts_def
      score_entities_def score_pred_def)

subsection \<open>The retry loops of the two resolvers\<close>

lemma run_ollama_inference_calls:
  "snd (run_ollama_inference svc p t calls) = calls @ [(p, t)]"
  by (simp add: run_ollama_inference_def Let_def)

lemma coref_attempt_calls: "snd (coref_attempt svc p t calls) = calls @ [(p, t)]"
  using run_ollama_inference_calls [of svc p t calls]
  by (cases "run_ollama_inference svc p t calls") (auto simp: coref_attempt_def split: sum.splits)



declare coref_retry_loop.simps [simp del]

lemma loop_exhausted:
  "\<not> a < m \<Longrightarrow> coref_retry_loop svc p m a dn le calls = (Inl (a, le), calls)"
  by (subst coref_retry_loop.simps) simp

lemma loop_success:
  "a < m \<Longrightarrow> coref_attempt svc p 120 calls = (Inr r, c1) \<Longrightarrow>
     coref_retry_loop svc p m a dn le calls = (Inr r, c1)"
  by (subst coref_retry_loop.simps) simp

lemma loop_failure:
  "a < m \<Longrightarrow> coref_attempt svc p 120 calls = (Inl e, c1) \<Longrightarrow> \<not> (timed_out e \<and> \<not> dn) \<Longrightarrow>
     coref_retry_loop svc p m a dn le calls = coref_retry_loop svc p m (a + 1) dn (Some e) c1"
  by (subst coref_retry_loop.simps) auto

lemma loop_escalation_success:
  "a < m \<Longrightarrow> coref_attempt svc p 120 calls = (Inl e, c1) \<Longrightarrow> timed_out e \<Longrightarrow> \<not> dn \<Longrightarrow>
     coref_attempt svc p 300 c1 = (Inr r, c2) \<Longrightarrow>
     coref_retry_loop svc p m a dn le calls = (Inr r, c2)"
  by (subst coref_retry_loop.simps) simp

lemma loop_escalation_failure:
  "a < m \<Longrightarrow> coref_attempt svc p 120 calls = (Inl e, c1) \<Longrightarrow> timed_out e \<Longrightarrow> \<not> dn \<Longrightarrow>
     coref_attempt svc p 300 c1 = (Inl e2, c2) \<Longrightarrow>
     coref_retry_loop svc p m a dn le calls
       = coref_retry_loop svc p m (a + 1 + 1) True (Some e2) c2"
  by (subst coref_retry_loop.simps) simp





lemma merge_result_calls: "coref_calls (snd (merge_result result st)) = coref_calls st"
  by (simp add: merge_result_def split: sum.splits)










subsection \<open>The passes of the final resolver\<close>

lemma demo_prompt:
  "resolve_inject_prompt demo_dumps ''T'' [] (JObj []) text = ''T'' @ [CHR 0x0A, CHR 0x0A] @ text"
  by (simp add: resolve_inject_prompt_def demo_dumps_def py_strip_def is_space_def)

lemma rewriting_pass:
  "resolve_pass rewriting_service q calls =
     (Inr (if length calls = 0 then ''first rewrite'' else ''second rewrite''), calls @ [(q, 120)])"
  by (simp add: resolve_pass_def run_ollama_inference_def request_errors_def rewriting_service_def)

text \<open>Whatever the number of passes, the loop ends at the first pass that succeeds.\<close>

lemma resolve_loop_first_success:
  "retry < num_retries \<Longrightarrow>
   resolve_pass svc (resolve_inject_prompt dumps template resolved aux input_text) calls
     = (Inr text, calls') \<Longrightarrow>
   resolve_loop dumps svc template resolved aux num_retries retry input_text calls
     = (Inr text, calls')"
  by (subst resolve_loop.simps) simp

text \<open>
  C3. The claim: with more than one pass configured, each successive pass calls the
  completion service on the text returned by the previous pass, and the resolved text of
  a chunk is the result of chaining all configured passes. The loop leaves with
  \<^verbatim>\<open>break\<close> after the first successful call: with two passes configured and a service
  that rewrites the chunk, the chunk's resolved text is the answer to the first call and
  the service is called once, on the original text; chaining the two passes calls it a
  second time, on the first answer, and ends with the second answer.
\<close>

theorem resolve_loop_stops_after_first_success:
  "resolve_loop demo_dumps rewriting_service ''T'' [] (JObj []) 2 0 ''chunk'' [] =
     (Inr ''first rewrite'', [(''T'' @ [CHR 0x0A, CHR 0x0A] @ ''chunk'', 120)]) \<and>
   chained_passes demo_dumps rewriting_service ''T'' [] (JObj []) 2 ''chunk'' [] =
     (Inr ''second rewrite'',
      [(''T'' @ [CHR 0x0A, CHR 0x0A] @ ''chunk'', 120),
       (''T'' @ [CHR 0x0A, CHR 0x0A] @ ''first rewrite'', 120)])"
  by (simp add: resolve_loop.simps [of _ _ _ _ _ 2] demo_prompt rewriting_pass numeral_2_eq_2)

subsection \<open>The memory of the coreference resolver\<close>

lemma dict_update_map_of_rev:
  "map_of (dict_update d other) = map_of d ++ map_of (rev other)"
proof (induction other arbitrary: d)
  case Nil
  then show ?case by (simp add: dict_update_def)
next
  case (Cons kv other)
  have "map_of (dict_update d (kv # other))
          = map_of (dict_update (AList.update (fst kv) (snd kv) d) other)"
    by (simp add: dict_update_def)
  also have "\<dots> = (map_of d)(fst kv \<mapsto> snd kv) ++ map_of (rev other)"
    by (simp only: Cons.IH AList.update_conv')
  also have "\<dots> = map_of d ++ map_of (rev (kv # other))"
    by (cases kv) (simp add: map_add_upd_left fun_eq_iff map_add_def split: option.splits)
  finally show ?case .
qed

lemma map_of_rev_distinct: "distinct (map fst xs) \<Longrightarrow> map_of (rev xs) = map_of xs"
  by (rule map_of_inject_set [THEN iffD2]) (simp_all add: distinct_rev rev_map [symmetric])

lemma dict_update_map_of:
  "distinct (dict_keys other) \<Longrightarrow> map_of (dict_update d other) = map_of d ++ map_of other"
  by (simp add: dict_update_map_of_rev map_of_rev_distinct dict_keys_def)

lemma dict_update_keys:
  "set (dict_keys (dict_update d other)) = set (dict_keys d) \<union> set (dict_keys other)"
proof -
  have "dom (map_of (dict_update d other)) = dom (map_of d) \<union> dom (map_of (rev other))"
    by (simp add: dict_update_map_of_rev Un_commute)
  then show ?thesis by (simp add: dom_map_of_conv_image_fst dict_keys_def)
qed

lemma dict_update_distinct:
  "distinct (dict_keys d) \<Longrightarrow> distinct (dict_keys (dict_update d other))"
  unfolding dict_update_def dict_keys_def
  by (induction other arbitrary: d) (simp_all add: AList.distinct_update)

lemma py_dict_update_keys:
  "py_dict_update d v = Inr d' \<Longrightarrow> set (dict_keys d) \<subseteq> set (dict_keys d')"
  by (induction d v rule: py_dict_update.induct) (auto simp: dict_update_keys)

lemma merge_result_keys:
  "set (dict_keys (resolved_entities st)) \<subseteq> set (dict_keys (resolved_entities (snd (merge_result result st)))) \<and>
   set (dict_keys (aux_descriptions st)) \<subseteq> set (dict_keys (aux_descriptions (snd (merge_result result st))))"
  by (auto simp: merge_result_def split: sum.splits dest: py_dict_update_keys [THEN subsetD])

lemma process_chunk_keys:
  "set (dict_keys (resolved_entities st))
     \<subseteq> set (dict_keys (resolved_entities (snd (process_chunk dumps svc mr tmpl ver cf st)))) \<and>
   set (dict_keys (aux_descriptions st))
     \<subseteq> set (dict_keys (aux_descriptions (snd (process_chunk dumps svc mr tmpl ver cf st))))"
proof -
  define p where "p = coref_inject_prompt dumps tmpl (resolved_entities st) (aux_descriptions st)
     (dict_get (ner_data cf) ''ENTITIES'' (JObj []))
     (dict_get (ner_data cf) ''PROPER_NOUN_DESCRIPTION'' (JObj [])) (chunk_text cf)"
  obtain r calls' where l: "coref_retry_loop svc p (nat (max 1 mr)) 0 False None (coref_calls st) = (r, calls')"
    by (cases "coref_retry_loop svc p (nat (max 1 mr)) 0 False None (coref_calls st)")
  show ?thesis
  proof (cases r)
    case (Inl f)
    with l show ?thesis
      by (cases f) (simp add: process_chunk_def Let_def p_def [symmetric])
  next
    case (Inr result)
    from merge_result_keys [of "st\<lparr>coref_calls := calls'\<rparr>" result] l Inr
    show ?thesis
      by (cases "merge_result result (st\<lparr>coref_calls := calls'\<rparr>)")
         (auto simp: process_chunk_def Let_def p_def [symmetric] split: option.splits)
  qed
qed

lemma process_chunks_keys:
  "set (dict_keys (resolved_entities st))
     \<subseteq> set (dict_keys (resolved_entities (snd (process_chunks dumps svc mr tmpl ver cfs st)))) \<and>
   set (dict_keys (aux_descriptions st))
     \<subseteq> set (dict_keys (aux_descriptions (snd (process_chunks dumps svc mr tmpl ver cfs st))))"
proof (induction cfs arbitrary: st)
  case Nil
  then show ?case by simp
next
  case (Cons cf cfs)
  show ?case
  proof (cases "suffix ''.txt'' (fname cf)")
    case False
    with Cons.IH [of st] show ?thesis by simp
  next
    case True
    obtain e st' where pc: "process_chunk dumps svc mr tmpl ver cf st = (e, st')"
      by (cases "process_chunk dumps svc mr tmpl ver cf st")
    from process_chunk_keys [of st dumps svc mr tmpl ver cf] pc
    have k: "set (dict_keys (resolved_entities st)) \<subseteq> set (dict_keys (resolved_entities st'))"
         "set (dict_keys (aux_descriptions st)) \<subseteq> set (dict_keys (aux_descriptions st'))"
      by simp_all
    show ?thesis
    proof (cases e)
      case None
      with True pc k Cons.IH [of st'] show ?thesis by auto
    next
      case (Some err)
      with True pc k show ?thesis by simp
    qed
  qed
qed

subsection \<open>The record parser\<close>

lemma parse_records_eq:
  "parse_records al parts es rs =
     (es @ concat (map (\<lambda>r. fst (record_items al r))
                     (takeWhile (\<lambda>r. \<not> stop_record r) (map py_strip parts))),
      rs @ concat (map (\<lambda>r. snd (record_items al r))
                     (takeWhile (\<lambda>r. \<not> stop_record r) (map py_strip parts))))"
  by (induction parts arbitrary: es rs) (simp_all add: Let_def)

lemmas parse_eval =
  parse_delimited_output_def py_split_def RECORD_DELIM_def TUPLE_DELIM_def COMPLETION_DELIM_def
  record_bob_def record_al_def quoted_def py_strip_def is_space_def stop_record_def
  record_items_def match_record_def match_keyword_def normalize_text_def py_lower_def
  lower_char_def upper_letters_def lower_letters_def Let_def

text \<open>
  C2, as claimed: parse truncates only at the first record that contains the completion
  delimiter, and every other record that fails the shape match, an empty record between
  two consecutive record delimiters included, is skipped, so that well-formed records
  after it still appear. The loop also leaves at an empty record
  (\<^verbatim>\<open>if not rec or COMPLETION_DELIM in rec: break\<close>): the empty record between two
  consecutive delimiters fails the shape match and contains no completion delimiter, and
  the well-formed record after it is lost.
\<close>

theorem parse_stops_at_empty_record:
  "parse_delimited_output (Some (record_bob @ RECORD_DELIM @ RECORD_DELIM @ record_al)) [''person'']
     = ([(''bob'', ''person'')], []) \<and>
   parse_delimited_output (Some record_al) [''person''] = ([(''al'', ''person'')], []) \<and>
   py_split (record_bob @ RECORD_DELIM @ RECORD_DELIM @ record_al) RECORD_DELIM
     = [record_bob, [], record_al] \<and>
   match_record [] = None \<and> \<not> str_contains [] COMPLETION_DELIM"
  by (simp add: parse_eval)

text \<open>
  C2, amended: parse truncates at the first record that, once stripped, is empty or
  contains the completion delimiter. The result is what the records before that one
  contribute, in order; a record among them that fails the shape match contributes
  nothing and raises no error, so the well-formed records that follow it, up to the
  first stop record, still appear in the returned lists.
\<close>

theorem parse_truncates_at_first_stop_record:
  "parse_delimited_output (Some text) allowed_types =
     (concat (map (\<lambda>r. fst (record_items (map (\<lambda>t. py_strip (py_lower t)) allowed_types) r))
        (takeWhile (\<lambda>r. \<not> (r = [] \<or> str_contains r COMPLETION_DELIM))
           (map py_strip (py_split text RECORD_DELIM)))),
      concat (map (\<lambda>r. snd (record_items (map (\<lambda>t. py_strip (py_lower t)) allowed_types) r))
        (takeWhile (\<lambda>r. \<not> (r = [] \<or> str_contains r COMPLETION_DELIM))
           (map py_strip (py_split text RECORD_DELIM))))) \<and>
   (match_record r = None \<longrightarrow> record_items al r = ([], []))"
  by (simp add: parse_delimited_output_def parse_records_eq stop_record_def record_items_def)

theorem parse_truncates_at_first_stop_record_witness:
  "match_record ''garbage'' = None \<and>
   record_items [''person''] ''garbage'' = ([], []) \<and>
   parse_delimited_output
     (Some (''garbage'' @ RECORD_DELIM @ record_al @ RECORD_DELIM @ COMPLETION_DELIM
            @ RECORD_DELIM @ record_bob)) [''person'']
     = ([(''al'', ''person'')], [])"
proof -
  have m: "match_record ''garbage'' = None"
    by (simp add: match_record_def)
  have p: "parse_delimited_output
     (Some (''garbage'' @ RECORD_DELIM @ record_al @ RECORD_DELIM @ COMPLETION_DELIM
            @ RECORD_DELIM @ record_bob)) [''person'']
     = ([(''al'', ''person'')], [])"
    by (simp add: parse_eval)
  from parse_truncates_at_first_stop_record
    [of "''garbage'' @ RECORD_DELIM @ record_al @ RECORD_DELIM @ COMPLETION_DELIM
            @ RECORD_DELIM @ record_bob" "[''person'']" "''garbage''" "[''person'']"] m p
  show ?thesis by simp
qed

subsection \<open>The extractor's JSON handling\<close>

lemmas json_eval =
  json_loads_def skip_ws_def json_ws_def is_control_def scan_literal_def
  match_number_def match_integer_def match_frac_def match_exp_def is_digit_def
  int_of_literal_def number_value_def digit_value_def BACKSLASH_def

lemma scenario_loads:
  "json_loads scenario_input = Inr (JObj [(''a'' @ [CHR 0x27], JInt 1)])"
  by (simp add: scenario_input_def quoted_def json_eval)

lemma scenario_repair: "repair_keys scenario_input = scenario_input"
  by (simp add: scenario_input_def quoted_def is_space_def)

lemma stray_loads:
  "json_loads stray_quote_input = Inl (JSONDecodeError ''Unterminated string starting at'')"
  by (simp add: stray_quote_input_def json_eval)

lemma stray_repair: "repair_keys stray_quote_input = repaired_input"
  by (simp add: stray_quote_input_def repaired_input_def quoted_def is_space_def)

lemma repaired_loads: "json_loads repaired_input = Inr (JObj [(''a'', JInt 1)])"
  by (simp add: repaired_input_def quoted_def json_eval)

text \<open>
  C4, as claimed: on the input \<^verbatim>\<open>{"a'": 1}\<close> parsing succeeds via the repair path and
  the result is the object whose single key is \<^verbatim>\<open>a\<close> with value 1. The input is valid
  JSON, an apostrophe being an ordinary character of a string: the first
  \<^verbatim>\<open>json.loads\<close> succeeds, nothing is printed, and the key of the result keeps its
  apostrophe.
\<close>

theorem scenario_input_parses_without_repair:
  "fst (ner_extract_json_from_ollama scenario_input) \<noteq> Inr (JObj [(''a'', JInt 1)]) \<and>
   snd (ner_extract_json_from_ollama scenario_input) = [] \<and>
   json_loads scenario_input = Inr (JObj [(''a'' @ [CHR 0x27], JInt 1)])"
  by (simp add: ner_extract_json_from_ollama_def scenario_loads normalize_result_def)

text \<open>
  C4, amended: on the input \<^verbatim>\<open>{"a'": 1}\<close> parsing succeeds directly, without the repair
  path (which would leave this text unchanged), and the result is the object whose single
  key is \<^verbatim>\<open>a'\<close> with value 1. The repair path serves a key that an apostrophe closes
  in place of its double quote: \<^verbatim>\<open>{"a': 1}\<close> fails to parse, is rewritten to
  \<^verbatim>\<open>{"a": 1}\<close>, and the result is the object whose single key is \<^verbatim>\<open>a\<close> with value 1.
\<close>

theorem extract_json_scenario_and_repair:
  "ner_extract_json_from_ollama scenario_input = (Inr (JObj [(''a'' @ [CHR 0x27], JInt 1)]), []) \<and>
   repair_keys scenario_input = scenario_input \<and>
   json_loads stray_quote_input = Inl (JSONDecodeError ''Unterminated string starting at'') \<and>
   repair_keys stray_quote_input = repaired_input \<and>
   ner_extract_json_from_ollama stray_quote_input =
     (Inr (JObj [(''a'', JInt 1)]),
      [[CHR 0x0A] @ ''===== RAW LLM OUTPUT (for debug) ====='' @ [CHR 0x0A],
       stray_quote_input,
       [CHR 0x0A] @ ''======================================'' @ [CHR 0x0A],
       ''Fixed JSON format by removing stray apostrophes in keys.''])"
proof -
  have s1: "prefix ''{'' (py_strip scenario_input)"
    by (simp add: scenario_input_def quoted_def py_strip_def is_space_def)
  have s2: "prefix ''{'' (py_strip stray_quote_input)"
    by (simp add: stray_quote_input_def py_strip_def is_space_def)
  have t: "take 1000 stray_quote_input = stray_quote_input"
    by (simp add: stray_quote_input_def)
  show ?thesis
    using s1 s2
    by (simp add: ner_extract_json_from_ollama_def scenario_loads scenario_repair stray_loads
        stray_repair repaired_loads normalize_result_def t Let_def)
qed

subsection \<open>The batch extraction driver\<close>

lemma full_prompt_of_strings:
  "string_cells r \<Longrightarrow> full_prompt_of T r = Inr (prompt_text T r)"
  by (cases "Entity_Types r"; cases "Input_Text r")
     (simp_all add: string_cells_def prompt_text_def full_prompt_of_def replace_with_cell_def)

lemma full_prompt_of_not_strings:
  "\<not> string_cells r \<Longrightarrow> full_prompt_of T r = Inl (TypeError ''replace() argument 2 must be str'')"
  by (cases "Entity_Types r"; cases "Input_Text r")
     (simp_all add: string_cells_def full_prompt_of_def replace_with_cell_def)

lemma process_rows_strings:
  "list_all string_cells rows \<Longrightarrow>
   process_rows svc T t rows outputs calls =
     Inr (outputs @ map (\<lambda>(idx, r). row_output svc t idx (prompt_text T r))
                      (List.enumerate (length calls) rows),
          calls @ map (\<lambda>r. (prompt_text T r, t)) rows)"
proof (induction rows arbitrary: outputs calls)
  case Nil
  then show ?case by simp
next
  case (Cons r rows)
  then have sr: "string_cells r" and rest: "list_all string_cells rows" by simp_all
  show ?case
    by (cases "svc (length calls) (prompt_text T r) t")
       (auto simp: Cons.IH [OF rest] full_prompt_of_strings [OF sr] run_ollama_inference_get_def
          request_errors_def row_output_def split: option.splits)
qed

lemma process_rows_abort:
  "\<not> list_all string_cells rows \<Longrightarrow>
   process_rows svc T t rows outputs calls = Inl (TypeError ''replace() argument 2 must be str'')"
proof (induction rows arbitrary: outputs calls)
  case Nil
  then show ?case by simp
next
  case (Cons r rows)
  show ?case
  proof (cases "string_cells r")
    case False
    then show ?thesis by (simp add: full_prompt_of_not_strings)
  next
    case True
    with Cons.prems have rest: "\<not> list_all string_cells rows" by simp
    show ?thesis
      by (cases "run_ollama_inference_get svc (prompt_text T r) t calls")
         (auto simp: full_prompt_of_strings [OF True] Cons.IH [OF rest] split: sum.splits)
  qed
qed

text \<open>
  C9, as claimed: a failed completion-service call for a row never aborts the run, so the
  driver produces exactly one output value (result or error text) for every input row.
  The prompt of a row is built before the \<^verbatim>\<open>try\<close>: on a row whose cell is not a string
  (an empty or a numeric cell of the CSV file) \<^verbatim>\<open>str.replace\<close> raises TypeError, the run
  ends there, and no output is produced for any row, the rows before it included.
\<close>

theorem erevaluation_main_aborts_on_non_string_cell:
  "erevaluation_main demo_service ''{entity_types}: {input_text}'' 300 None
     [\<lparr>Entity_Types = Str ''person'', Input_Text = NotStr\<rparr>]
   = Inl (TypeError ''replace() argument 2 must be str'') \<and>
   erevaluation_main demo_service ''{entity_types}: {input_text}'' 300 None
     [\<lparr>Entity_Types = Str ''person'', Input_Text = Str ''a''\<rparr>,
      \<lparr>Entity_Types = NotStr, Input_Text = Str ''b''\<rparr>]
   = Inl (TypeError ''replace() argument 2 must be str'')"
  by (simp add: erevaluation_main_def limited_rows_def full_prompt_of_def replace_with_cell_def
      run_ollama_inference_get_def request_errors_def demo_service_def
      py_replace_def py_split_def)

text \<open>
  C9, amended: a failed completion-service call for a row never aborts the run: the error
  text is recorded in place of that row's output and processing continues with the next
  row. When the cells \<^verbatim>\<open>Entity_Types\<close> and \<^verbatim>\<open>Input_Text\<close> of every row are strings, the
  driver produces exactly one output value (result or error text) for every row, in the
  order of the rows, whatever the service answers; a run that ends normally has one
  output per row; and the only exception that ends a run is the TypeError of a cell that
  is not a string.
\<close>

theorem erevaluation_main_one_output_per_string_row:
  "(list_all string_cells (limited_rows limit rows) \<longrightarrow>
      erevaluation_main svc T t limit rows =
        Inr (map (\<lambda>(idx, r). row_output svc t idx (prompt_text T r))
               (List.enumerate 0 (limited_rows limit rows)))) \<and>
   (erevaluation_main svc T t limit rows = Inr outputs \<longrightarrow>
      length outputs = length (limited_rows limit rows)) \<and>
   (erevaluation_main svc T t limit rows = Inl e \<longrightarrow>
      e = TypeError ''replace() argument 2 must be str'' \<and>
      \<not> list_all string_cells (limited_rows limit rows))"
proof (cases "list_all string_cells (limited_rows limit rows)")
  case True
  from process_rows_strings [OF True, of svc T t "[]" "[]"]
  show ?thesis using True by (auto simp: erevaluation_main_def)
next
  case False
  from process_rows_abort [OF False, of svc T t "[]" "[]"]
  show ?thesis using False by (auto simp: erevaluation_main_def)
qed

theorem erevaluation_main_one_output_per_string_row_witness:
  "list_all string_cells (limited_rows None
     [\<lparr>Entity_Types = Str ''person'', Input_Text = Str ''a''\<rparr>,
      \<lparr>Entity_Types = Str ''person'', Input_Text = Str ''b''\<rparr>,
      \<lparr>Entity_Types = Str ''place'', Input_Text = Str ''c''\<rparr>]) \<and>
   erevaluation_main demo_service ''{entity_types}: {input_text}'' 300 None
     [\<lparr>Entity_Types = Str ''person'', Input_Text = Str ''a''\<rparr>,
      \<lparr>Entity_Types = Str ''person'', Input_Text = Str ''b''\<rparr>,
      \<lparr>Entity_Types = Str ''place'', Input_Text = Str ''c''\<rparr>]
   = Inr [''ERROR: Ollama inference timed out.'', ''ok'', ''ERROR: HTTP error occurred: 500 - down''] \<and>
   length [''ERROR: Ollama inference timed out.'', ''ok'', ''ERROR: HTTP error occurred: 500 - down'']
     = length (limited_rows None
     [\<lparr>Entity_Types = Str ''person'', Input_Text = Str ''a''\<rparr>,
      \<lparr>Entity_Types = Str ''person'', Input_Text = Str ''b''\<rparr>,
      \<lparr>Entity_Types = Str ''place'', Input_Text = Str ''c''\<rparr>]) \<and>
   erevaluation_main demo_service ''{entity_types}: {input_text}'' 300 None
     [\<lparr>Entity_Types = Str ''person'', Input_Text = NotStr\<rparr>]
   = Inl (TypeError ''replace() argument 2 must be str'') \<and>
   \<not> list_all string_cells (limited_rows None [\<lparr>Entity_Types = Str ''person'', Input_Text = NotStr\<rparr>])"
proof -
  have ev: "erevaluation_main demo_service ''{entity_types}: {input_text}'' 300 None
     [\<lparr>Entity_Types = Str ''person'', Input_Text = NotStr\<rparr>]
   = Inl (TypeError ''replace() argument 2 must be str'')"
    by (simp add: erevaluation_main_def limited_rows_def full_prompt_of_def replace_with_cell_def)
  have sc: "list_all string_cells (limited_rows None
     [\<lparr>Entity_Types = Str ''person'', Input_Text = Str ''a''\<rparr>,
      \<lparr>Entity_Types = Str ''person'', Input_Text = Str ''b''\<rparr>,
      \<lparr>Entity_Types = Str ''place'', Input_Text = Str ''c''\<rparr>])"
    by (simp add: limited_rows_def string_cells_def)
  from erevaluation_main_one_output_per_string_row
    [of None "[\<lparr>Entity_Types = Str ''person'', Input_Text = Str ''a''\<rparr>,
      \<lparr>Entity_Types = Str ''person'', Input_Text = Str ''b''\<rparr>,
      \<lparr>Entity_Types = Str ''place'', Input_Text = Str ''c''\<rparr>]" demo_service
      "''{entity_types}: {input_text}''" 300
      "[''ERROR: Ollama inference timed out.'', ''ok'', ''ERROR: HTTP error occurred: 500 - down'']"
      "TypeError ''replace() argument 2 must be str''"]
    erevaluation_main_one_output_per_string_row
    [of None "[\<lparr>Entity_Types = Str ''person'', Input_Text = NotStr\<rparr>]" demo_service
      "''{entity_types}: {input_text}''" 300 "[]" "TypeError ''replace() argument 2 must be str''"]
    ev sc
  show ?thesis
    by (simp add: limited_rows_def enumerate_eq_zip row_output_def demo_service_def upt_rec
        prompt_text_def full_prompt_of_def replace_with_cell_def py_replace_def py_split_def)
qed

subsection \<open>The memory after a chunk\<close>

lemma coref_retry_loop_result:
  "coref_retry_loop svc p m a dn le calls = (Inr result, calls') \<Longrightarrow>
     \<exists>pre t. calls' = pre @ [(p, t)] \<and> fst (coref_attempt svc p t pre) = Inr result"
proof (induction svc p m a dn le calls rule: coref_retry_loop.induct)
  case (1 svc p m a dn le calls)
  show ?case
  proof (cases "a < m")
    case False
    with "1.prems" show ?thesis by (simp add: loop_exhausted)
  next
    case lt: True
    obtain r1 calls1 where a1: "coref_attempt svc p 120 calls = (r1, calls1)"
      by (cases "coref_attempt svc p 120 calls")
    have c1: "calls1 = calls @ [(p, 120)]"
      using coref_attempt_calls [of svc p 120 calls] a1 by simp
    show ?thesis
    proof (cases r1)
      case (Inr r)
      with lt a1 "1.prems" have "result = r" "calls' = calls1" by (simp_all add: loop_success)
      with a1 Inr c1 show ?thesis by auto
    next
      case (Inl e)
      have a1': "coref_attempt svc p 120 calls = (Inl e, calls1)"
        using a1 Inl by simp
      show ?thesis
      proof (cases "timed_out e \<and> \<not> dn")
        case False
        have step: "coref_retry_loop svc p m a dn le calls
                      = coref_retry_loop svc p m (a + 1) dn (Some e) calls1"
          using loop_failure [OF lt a1' False] by simp
        from "1.IH"(2) [OF lt a1 [symmetric] Inl False] "1.prems"
        show ?thesis unfolding step by simp
      next
        case esc: True
        then have tmo: "timed_out e" and nd: "\<not> dn" by simp_all
        obtain r2 calls2 where a2: "coref_attempt svc p 300 calls1 = (r2, calls2)"
          by (cases "coref_attempt svc p 300 calls1")
        have c2: "calls2 = calls1 @ [(p, 300)]"
          using coref_attempt_calls [of svc p 300 calls1] a2 by simp
        show ?thesis
        proof (cases r2)
          case (Inr r)
          have "coref_retry_loop svc p m a dn le calls = (Inr r, calls2)"
            using loop_escalation_success [OF lt a1' tmo nd] a2 Inr by simp
          with "1.prems" have "result = r" "calls' = calls2" by simp_all
          with a2 Inr c2 show ?thesis by auto
        next
          case (Inl retry_e)
          have step: "coref_retry_loop svc p m a dn le calls
                        = coref_retry_loop svc p m (a + 1 + 1) True (Some retry_e) calls2"
            using loop_escalation_failure [OF lt a1' tmo nd] a2 Inl by simp
          from "1.IH"(1) [OF lt a1 [symmetric] \<open>r1 = Inl e\<close> esc a2 [symmetric] Inl] "1.prems"
          show ?thesis unfolding step by simp
        qed
      qed
    qed
  qed
qed

lemma merge_result_memory:
  "fst (merge_result result (st\<lparr>coref_calls := c\<rparr>)) = fst (merge_result result st)"
  "resolved_entities (snd (merge_result result (st\<lparr>coref_calls := c\<rparr>)))
     = resolved_entities (snd (merge_result result st))"
  "aux_descriptions (snd (merge_result result (st\<lparr>coref_calls := c\<rparr>)))
     = aux_descriptions (snd (merge_result result st))"
  by (simp_all add: merge_result_def split: sum.splits)

lemma merge_result_resolved:
  "map_of result ''RESOLVED_ENTITIES'' = Some (JObj re) \<Longrightarrow>
     resolved_entities (snd (merge_result result st)) = dict_update (resolved_entities st) re"
  by (simp add: merge_result_def dict_get_def split: sum.splits)

lemma merge_result_aux:
  "fst (merge_result result st) = None \<Longrightarrow>
   map_of result ''AUXILIARY_DESCRIPTIONS'' = Some (JObj ad) \<Longrightarrow>
     aux_descriptions (snd (merge_result result st)) = dict_update (aux_descriptions st) ad"
  by (auto simp: merge_result_def dict_get_def split: sum.splits)

lemma process_chunk_outcome:
  "process_chunk dumps svc mr tmpl ver cf st = (status, st1) \<Longrightarrow>
     (status \<noteq> None \<and> resolved_entities st1 = resolved_entities st
        \<and> aux_descriptions st1 = aux_descriptions st) \<or>
     (\<exists>response pre t.
        coref_calls st1 = pre @ [(chunk_prompt dumps tmpl cf st, t)] \<and>
        fst (coref_attempt svc (chunk_prompt dumps tmpl cf st) t pre) = Inr response \<and>
        status = fst (merge_result response st) \<and>
        resolved_entities st1 = resolved_entities (snd (merge_result response st)) \<and>
        aux_descriptions st1 = aux_descriptions (snd (merge_result response st)))"
proof -
  assume pc: "process_chunk dumps svc mr tmpl ver cf st = (status, st1)"
  define p where "p = chunk_prompt dumps tmpl cf st"
  obtain r calls' where l: "coref_retry_loop svc p (nat (max 1 mr)) 0 False None (coref_calls st) = (r, calls')"
    by (cases "coref_retry_loop svc p (nat (max 1 mr)) 0 False None (coref_calls st)")
  show ?thesis
  proof (cases r)
    case (Inl f)
    with l pc show ?thesis
      by (cases f) (auto simp: process_chunk_def Let_def p_def chunk_prompt_def)
  next
    case (Inr response)
    from coref_retry_loop_result [OF l [unfolded Inr]]
    obtain pre t where c: "calls' = pre @ [(p, t)]" and a: "fst (coref_attempt svc p t pre) = Inr response"
      by blast
    obtain ms st2 where m: "merge_result response (st\<lparr>coref_calls := calls'\<rparr>) = (ms, st2)"
      by (cases "merge_result response (st\<lparr>coref_calls := calls'\<rparr>)")
    have calls2: "coref_calls st2 = calls'"
      using merge_result_calls [where result = response and st = "st\<lparr>coref_calls := calls'\<rparr>"] m by simp
    have mem: "ms = fst (merge_result response st)"
      "resolved_entities st2 = resolved_entities (snd (merge_result response st))"
      "aux_descriptions st2 = aux_descriptions (snd (merge_result response st))"
      using merge_result_memory [where result = response and st = st and c = calls'] m by simp_all
    have "status = ms \<and> resolved_entities st1 = resolved_entities st2
            \<and> aux_descriptions st1 = aux_descriptions st2 \<and> coref_calls st1 = coref_calls st2"
      using pc l Inr m
      by (cases ms) (auto simp: process_chunk_def Let_def p_def chunk_prompt_def)
    with mem calls2 c a show ?thesis
      unfolding p_def
      by (intro disjI2 exI [of _ response] exI [of _ pre] exI [of _ t]) simp
  qed
qed

lemma response_text_parsed:
  "coref_extract_json_from_ollama response_text = Inr chunk_response"
  by (simp add: coref_extract_json_from_ollama_def response_text_def chunk_response_def
      quoted_def py_strip_def is_space_def dict_contains_def json_eval)

lemma demo_chunk_processed:
  "process_chunk demo_dumps json_service 3 ''T'' False demo_chunk memory_before =
     (None,
      \<lparr>resolved_entities = [(''he'', JStr ''Bob''), (''she'', JStr ''Al''), (''it'', JNull)],
       aux_descriptions = [(''Bob'', JStr ''a man'')],
       coref_calls = [(''T'' @ [CHR 0x0A, CHR 0x0A], 120)],
       coref_outputs = [(''chunk_000.json'', chunk_response)]\<rparr>)"
proof -
  have p: "coref_inject_prompt demo_dumps ''T'' (resolved_entities memory_before)
             (aux_descriptions memory_before) (JObj []) (JObj []) ''He left.''
             = ''T'' @ [CHR 0x0A, CHR 0x0A]"
    by (simp add: coref_inject_prompt_def demo_dumps_def py_strip_def is_space_def)
  have a: "coref_attempt json_service (''T'' @ [CHR 0x0A, CHR 0x0A]) 120 []
             = (Inr chunk_response, [(''T'' @ [CHR 0x0A, CHR 0x0A], 120)])"
    by (simp add: coref_attempt_def run_ollama_inference_def request_errors_def json_service_def
        response_text_parsed)
  have l: "coref_retry_loop json_service (''T'' @ [CHR 0x0A, CHR 0x0A]) 3 0 False None []
             = (Inr chunk_response, [(''T'' @ [CHR 0x0A, CHR 0x0A], 120)])"
    by (rule loop_success [OF _ a]) simp
  have n: "py_replace ''chunk_000.txt'' ''.txt'' [] = ''chunk_000''"
    by (simp add: py_replace_def py_split_def)
  have c: "coref_calls memory_before = []"
    by (simp add: memory_before_def)
  show ?thesis
    using l
    by (simp add: process_chunk_def demo_chunk_def dict_get_def p n c Let_def)
       (simp add: merge_result_def chunk_response_def memory_before_def dict_get_def dict_update_def)
qed

text \<open>
  C6. The global memory is mutated only by the union-with-override merge. The merge
  itself: when the two values of a response are dicts, every key that was in
  \<^verbatim>\<open>resolved_entities\<close> and \<^verbatim>\<open>aux_descriptions\<close> is still there, all keys of the response
  maps are added, and on a key conflict the value of the response wins. The loop body:
  when \<open>process_chunk\<close> succeeds, its last call to the service returned a response that
  parsed, and the memory it leaves is the memory it was given merged with the two maps of
  that response; when it fails, the memory is unchanged or is the result of that merge as
  far as it went. Consequently the key sets of both maps only grow across a pass over the
  chunks, however the pass ends.
\<close>

theorem memory_merge_union_override:
  "(map_of result ''RESOLVED_ENTITIES'' = Some (JObj re) \<and>
    map_of result ''AUXILIARY_DESCRIPTIONS'' = Some (JObj ad) \<and>
    distinct (dict_keys re) \<and> distinct (dict_keys ad) \<longrightarrow>
      fst (merge_result result st) = None \<and>
      map_of (resolved_entities (snd (merge_result result st)))
        = map_of (resolved_entities st) ++ map_of re \<and>
      map_of (aux_descriptions (snd (merge_result result st)))
        = map_of (aux_descriptions st) ++ map_of ad \<and>
      set (dict_keys (resolved_entities (snd (merge_result result st))))
        = set (dict_keys (resolved_entities st)) \<union> set (dict_keys re) \<and>
      set (dict_keys (aux_descriptions (snd (merge_result result st))))
        = set (dict_keys (aux_descriptions st)) \<union> set (dict_keys ad)) \<and>
   set (dict_keys (resolved_entities st0))
     \<subseteq> set (dict_keys (resolved_entities (snd (process_chunks dumps svc mr tmpl ver cfs st0)))) \<and>
   set (dict_keys (aux_descriptions st0))
     \<subseteq> set (dict_keys (aux_descriptions (snd (process_chunks dumps svc mr tmpl ver cfs st0)))) \<and>
   (process_chunk dumps svc mr tmpl ver cf st = (None, st1) \<longrightarrow>
      (\<exists>response pre t.
         coref_calls st1 = pre @ [(chunk_prompt dumps tmpl cf st, t)] \<and>
         fst (coref_attempt svc (chunk_prompt dumps tmpl cf st) t pre) = Inr response \<and>
         (\<forall>rs. map_of response ''RESOLVED_ENTITIES'' = Some (JObj rs) \<and> distinct (dict_keys rs) \<longrightarrow>
            map_of (resolved_entities st1) = map_of (resolved_entities st) ++ map_of rs \<and>
            set (dict_keys (resolved_entities st1))
              = set (dict_keys (resolved_entities st)) \<union> set (dict_keys rs)) \<and>
         (\<forall>ds. map_of response ''AUXILIARY_DESCRIPTIONS'' = Some (JObj ds) \<and> distinct (dict_keys ds) \<longrightarrow>
            map_of (aux_descriptions st1) = map_of (aux_descriptions st) ++ map_of ds \<and>
            set (dict_keys (aux_descriptions st1))
              = set (dict_keys (aux_descriptions st)) \<union> set (dict_keys ds)))) \<and>
   (process_chunk dumps svc mr tmpl ver cf st = (Some e, st1) \<longrightarrow>
      (resolved_entities st1 = resolved_entities st \<and> aux_descriptions st1 = aux_descriptions st) \<or>
      (\<exists>response pre t.
         coref_calls st1 = pre @ [(chunk_prompt dumps tmpl cf st, t)] \<and>
         fst (coref_attempt svc (chunk_prompt dumps tmpl cf st) t pre) = Inr response \<and>
         resolved_entities st1 = resolved_entities (snd (merge_result response st)) \<and>
         aux_descriptions st1 = aux_descriptions (snd (merge_result response st))))"
proof -
  have A: "fst (merge_result result st) = None \<and>
      map_of (resolved_entities (snd (merge_result result st)))
        = map_of (resolved_entities st) ++ map_of re \<and>
      map_of (aux_descriptions (snd (merge_result result st)))
        = map_of (aux_descriptions st) ++ map_of ad \<and>
      set (dict_keys (resolved_entities (snd (merge_result result st))))
        = set (dict_keys (resolved_entities st)) \<union> set (dict_keys re) \<and>
      set (dict_keys (aux_descriptions (snd (merge_result result st))))
        = set (dict_keys (aux_descriptions st)) \<union> set (dict_keys ad)"
    if a: "map_of result ''RESOLVED_ENTITIES'' = Some (JObj re) \<and>
           map_of result ''AUXILIARY_DESCRIPTIONS'' = Some (JObj ad) \<and>
           distinct (dict_keys re) \<and> distinct (dict_keys ad)"
  proof -
    from a have m: "merge_result result st =
        (None, st\<lparr>resolved_entities := dict_update (resolved_entities st) re,
                  aux_descriptions := dict_update (aux_descriptions st) ad\<rparr>)"
      by (simp add: merge_result_def dict_get_def)
    show ?thesis using a by (simp add: m dict_update_map_of dict_update_keys)
  qed
  have B: "set (dict_keys (resolved_entities st0))
       \<subseteq> set (dict_keys (resolved_entities (snd (process_chunks dumps svc mr tmpl ver cfs st0)))) \<and>
     set (dict_keys (aux_descriptions st0))
       \<subseteq> set (dict_keys (aux_descriptions (snd (process_chunks dumps svc mr tmpl ver cfs st0))))"
    by (rule process_chunks_keys)
  have C: "\<exists>response pre t.
         coref_calls st1 = pre @ [(chunk_prompt dumps tmpl cf st, t)] \<and>
         fst (coref_attempt svc (chunk_prompt dumps tmpl cf st) t pre) = Inr response \<and>
         (\<forall>rs. map_of response ''RESOLVED_ENTITIES'' = Some (JObj rs) \<and> distinct (dict_keys rs) \<longrightarrow>
            map_of (resolved_entities st1) = map_of (resolved_entities st) ++ map_of rs \<and>
            set (dict_keys (resolved_entities st1))
              = set (dict_keys (resolved_entities st)) \<union> set (dict_keys rs)) \<and>
         (\<forall>ds. map_of response ''AUXILIARY_DESCRIPTIONS'' = Some (JObj ds) \<and> distinct (dict_keys ds) \<longrightarrow>
            map_of (aux_descriptions st1) = map_of (aux_descriptions st) ++ map_of ds \<and>
            set (dict_keys (aux_descriptions st1))
              = set (dict_keys (aux_descriptions st)) \<union> set (dict_keys ds))"
    if pc: "process_chunk dumps svc mr tmpl ver cf st = (None, st1)"
  proof -
    from process_chunk_outcome [OF pc]
    obtain response pre t where
      c: "coref_calls st1 = pre @ [(chunk_prompt dumps tmpl cf st, t)]" and
      a: "fst (coref_attempt svc (chunk_prompt dumps tmpl cf st) t pre) = Inr response" and
      ok: "fst (merge_result response st) = None" and
      r: "resolved_entities st1 = resolved_entities (snd (merge_result response st))" and
      d: "aux_descriptions st1 = aux_descriptions (snd (merge_result response st))"
      by auto
    have R: "map_of (resolved_entities st1) = map_of (resolved_entities st) ++ map_of rs \<and>
            set (dict_keys (resolved_entities st1))
              = set (dict_keys (resolved_entities st)) \<union> set (dict_keys rs)"
      if "map_of response ''RESOLVED_ENTITIES'' = Some (JObj rs) \<and> distinct (dict_keys rs)" for rs
      using that by (simp add: r merge_result_resolved dict_update_map_of dict_update_keys)
    have D: "map_of (aux_descriptions st1) = map_of (aux_descriptions st) ++ map_of ds \<and>
            set (dict_keys (aux_descriptions st1))
              = set (dict_keys (aux_descriptions st)) \<union> set (dict_keys ds)"
      if "map_of response ''AUXILIARY_DESCRIPTIONS'' = Some (JObj ds) \<and> distinct (dict_keys ds)" for ds
      using that ok by (simp add: d merge_result_aux dict_update_map_of dict_update_keys)
    from c a R D show ?thesis
      by (intro exI [of _ response] exI [of _ pre] exI [of _ t]) blast
  qed
  have D: "(resolved_entities st1 = resolved_entities st \<and> aux_descriptions st1 = aux_descriptions st) \<or>
      (\<exists>response pre t.
         coref_calls st1 = pre @ [(chunk_prompt dumps tmpl cf st, t)] \<and>
         fst (coref_attempt svc (chunk_prompt dumps tmpl cf st) t pre) = Inr response \<and>
         resolved_entities st1 = resolved_entities (snd (merge_result response st)) \<and>
         aux_descriptions st1 = aux_descriptions (snd (merge_result response st)))"
    if pc: "process_chunk dumps svc mr tmpl ver cf st = (Some e, st1)"
    using process_chunk_outcome [OF pc] by blast
  from A B C D show ?thesis by blast
qed

theorem memory_merge_union_override_witness:
  "map_of chunk_response ''RESOLVED_ENTITIES'' = Some (JObj [(''he'', JStr ''Bob''), (''it'', JNull)]) \<and>
   map_of chunk_response ''AUXILIARY_DESCRIPTIONS'' = Some (JObj [(''Bob'', JStr ''a man'')]) \<and>
   distinct (dict_keys [(''he'', JStr ''Bob''), (''it'', JNull)]) \<and>
   distinct (dict_keys [(''Bob'', JStr ''a man'')]) \<and>
   merge_result chunk_response memory_before =
     (None, memory_before
        \<lparr>resolved_entities := [(''he'', JStr ''Bob''), (''she'', JStr ''Al''), (''it'', JNull)],
         aux_descriptions := [(''Bob'', JStr ''a man'')]\<rparr>) \<and>
   process_chunk demo_dumps json_service 3 ''T'' False demo_chunk memory_before =
     (None,
      \<lparr>resolved_entities = [(''he'', JStr ''Bob''), (''she'', JStr ''Al''), (''it'', JNull)],
       aux_descriptions = [(''Bob'', JStr ''a man'')],
       coref_calls = [(''T'' @ [CHR 0x0A, CHR 0x0A], 120)],
       coref_outputs = [(''chunk_000.json'', chunk_response)]\<rparr>) \<and>
   fst (coref_attempt json_service (chunk_prompt demo_dumps ''T'' demo_chunk memory_before) 120 [])
     = Inr chunk_response \<and>
   map_of [(''he'', JStr ''Bob''), (''she'', JStr ''Al''), (''it'', JNull)]
     = map_of (resolved_entities memory_before) ++ map_of [(''he'', JStr ''Bob''), (''it'', JNull)]"
proof -
  have cp: "chunk_prompt demo_dumps ''T'' demo_chunk memory_before = ''T'' @ [CHR 0x0A, CHR 0x0A]"
    by (simp add: chunk_prompt_def coref_inject_prompt_def demo_dumps_def py_strip_def is_space_def)
  have at: "fst (coref_attempt json_service (''T'' @ [CHR 0x0A, CHR 0x0A]) 120 []) = Inr chunk_response"
    by (simp add: coref_attempt_def run_ollama_inference_def request_errors_def json_service_def
        response_text_parsed)
  have mr: "merge_result chunk_response memory_before =
     (None, memory_before
        \<lparr>resolved_entities := [(''he'', JStr ''Bob''), (''she'', JStr ''Al''), (''it'', JNull)],
         aux_descriptions := [(''Bob'', JStr ''a man'')]\<rparr>)"
    by (simp add: chunk_response_def memory_before_def merge_result_def dict_get_def dict_update_def)
  have hyp: "map_of chunk_response ''RESOLVED_ENTITIES'' = Some (JObj [(''he'', JStr ''Bob''), (''it'', JNull)]) \<and>
    map_of chunk_response ''AUXILIARY_DESCRIPTIONS'' = Some (JObj [(''Bob'', JStr ''a man'')]) \<and>
    distinct (dict_keys [(''he'', JStr ''Bob''), (''it'', JNull)]) \<and>
    distinct (dict_keys [(''Bob'', JStr ''a man'')])"
    by (simp add: chunk_response_def dict_keys_def)
  from memory_merge_union_override
    [where result = chunk_response and re = "[(''he'', JStr ''Bob''), (''it'', JNull)]"
       and ad = "[(''Bob'', JStr ''a man'')]" and st = memory_before and st0 = memory_before
       and dumps = demo_dumps and svc = json_service and mr = 3 and tmpl = "''T''" and ver = False
       and cfs = "[]" and cf = demo_chunk
       and ?st1.0 = "\<lparr>resolved_entities = [(''he'', JStr ''Bob''), (''she'', JStr ''Al''), (''it'', JNull)],
       aux_descriptions = [(''Bob'', JStr ''a man'')],
       coref_calls = [(''T'' @ [CHR 0x0A, CHR 0x0A], 120)],
       coref_outputs = [(''chunk_000.json'', chunk_response)]\<rparr>"
       and e = "TypeError []"]
    hyp mr
  have "map_of (resolved_entities (snd (merge_result chunk_response memory_before)))
          = map_of (resolved_entities memory_before) ++ map_of [(''he'', JStr ''Bob''), (''it'', JNull)]"
    by blast
  then have m: "map_of [(''he'', JStr ''Bob''), (''she'', JStr ''Al''), (''it'', JNull)]
     = map_of (resolved_entities memory_before) ++ map_of [(''he'', JStr ''Bob''), (''it'', JNull)]"
    by (simp add: mr)
  show ?thesis
    using hyp mr demo_chunk_processed at m by (simp add: cp)
qed

end
